theory Spec2Isabelle
  imports Complex_Main "HOL-Library.Monad_Syntax"
begin

section \<open>Routing: breadth-first route search (core/routing.py)\<close>

text \<open>
  Identities are Python strings. A network view is a Python dict from an identity to the
  set of its neighbours; it is modelled as an association list whose values list the
  neighbours in the order in which Python iterates over the set (any order: every
  theorem below holds for all of them). \<open>map_of\<close> is the dict lookup.
\<close>

type_synonym identity = string

type_synonym network_view = "(identity \<times> identity list) list"

text \<open>\<^verbatim>\<open>network_graph.get(current, set())\<close>\<close>

definition view_get :: "network_view \<Rightarrow> identity \<Rightarrow> identity list" where
  "view_get g v = (case map_of g v of None \<Rightarrow> [] | Some ns \<Rightarrow> ns)"

text \<open>
  The inner \<^verbatim>\<open>for neighbor in ...\<close> loop of \<^verbatim>\<open>Router.find_route\<close>: \<open>Inl\<close> is the early
  \<^verbatim>\<open>return path + [neighbor]\<close>, \<open>Inr\<close> the visited set and the queue after the loop.
\<close>

fun scan_neighbors ::
  "identity \<Rightarrow> identity list \<Rightarrow> identity list \<Rightarrow> identity set \<Rightarrow>
   (identity \<times> identity list) list \<Rightarrow>
   identity list + (identity set \<times> (identity \<times> identity list) list)" where
  "scan_neighbors dest path [] visited queue = Inr (visited, queue)"
| "scan_neighbors dest path (n # ns) visited queue =
     (if n = dest then Inl (path @ [n])
      else if n \<notin> visited
        then scan_neighbors dest path ns (insert n visited) (queue @ [(n, path @ [n])])
      else scan_neighbors dest path ns visited queue)"

text \<open>Every identity that occurs as somebody's neighbour in the view.\<close>

definition view_nodes :: "network_view \<Rightarrow> identity set" where
  "view_nodes g = \<Union> (set ` snd ` set g)"

lemma finite_view_nodes: "finite (view_nodes g)"
  by (simp add: view_nodes_def)

lemma view_get_nodes: "set (view_get g v) \<subseteq> view_nodes g"
proof
  fix w
  assume w: "w \<in> set (view_get g v)"
  then obtain ns where ns: "map_of g v = Some ns" and wn: "w \<in> set ns"
    by (cases "map_of g v") (simp_all add: view_get_def)
  from ns have "(v, ns) \<in> set g"
    by (rule map_of_SomeD)
  then have "set ns \<in> set ` snd ` set g"
    by force
  with wn show "w \<in> view_nodes g"
    unfolding view_nodes_def by blast
qed

lemma scan_neighbors_measure:
  "scan_neighbors dest path ns visited queue = Inr (visited', queue') \<Longrightarrow>
   set ns \<subseteq> U \<Longrightarrow> finite U \<Longrightarrow>
   card (U - visited') + length queue' = card (U - visited) + length queue"
proof (induction ns arbitrary: visited queue)
  case Nil
  then show ?case by simp
next
  case (Cons n ns)
  show ?case
  proof (cases "n = dest")
    case True
    with Cons.prems show ?thesis by simp
  next
    case False
    show ?thesis
    proof (cases "n \<in> visited")
      case True
      with Cons False show ?thesis by simp
    next
      case nv: False
      from Cons.prems False nv
      have "scan_neighbors dest path ns (insert n visited) (queue @ [(n, path @ [n])])
              = Inr (visited', queue')"
        by simp
      from Cons.IH [OF this] Cons.prems
      have eq: "card (U - visited') + length queue'
              = card (U - insert n visited) + Suc (length queue)"
        by simp
      from Cons.prems nv have "n \<in> U - visited" and "finite (U - visited)"
        by auto
      then have "card (U - visited) = Suc (card (U - visited - {n}))"
        by (metis card_Suc_Diff1)
      moreover have "U - insert n visited = U - visited - {n}"
        by auto
      ultimately show ?thesis using eq by simp
    qed
  qed
qed

text \<open>The \<^verbatim>\<open>while queue:\<close> loop; \<open>None\<close> is the final \<^verbatim>\<open>return None\<close>.\<close>

function bfs_loop ::
  "network_view \<Rightarrow> identity \<Rightarrow> identity set \<Rightarrow> (identity \<times> identity list) list \<Rightarrow>
   identity list option" where
  "bfs_loop g dest visited [] = None"
| "bfs_loop g dest visited ((current, path) # queue) =
     (case scan_neighbors dest path (view_get g current) visited queue of
        Inl route \<Rightarrow> Some route
      | Inr (visited', queue') \<Rightarrow> bfs_loop g dest visited' queue')"
  by pat_completeness auto
termination
proof (relation "measure (\<lambda>(g, dest, visited, queue). card (view_nodes g - visited) + length queue)")
  show "wf (measure (\<lambda>(g, dest, visited, queue). card (view_nodes g - visited) + length queue))"
    by simp
next
  fix g dest visited current path queue x2 visited' queue'
  assume "scan_neighbors dest path (view_get g current) visited queue = Inr x2"
    and "(visited', queue') = x2"
  then have "scan_neighbors dest path (view_get g current) visited queue = Inr (visited', queue')"
    by simp
  from scan_neighbors_measure [OF this view_get_nodes finite_view_nodes]
  show "((g, dest, visited', queue'), (g, dest, visited, (current, path) # queue))
      \<in> measure (\<lambda>(g, dest, visited, queue). card (view_nodes g - visited) + length queue)"
    by simp
qed

text \<open>\<^verbatim>\<open>Router.find_route(destination, network_graph)\<close> of the router of node \<open>self\<close>.\<close>

definition find_route :: "identity \<Rightarrow> identity \<Rightarrow> network_view \<Rightarrow> identity list option" where
  "find_route self destination g =
     (if self = destination then Some [self]
      else if map_of g destination = None then None
      else bfs_loop g destination {self} [(self, [self])])"

subsection \<open>Routes of a view and the search invariant\<close>

text \<open>
  A walk is a non-empty list of identities in which each one lists the next among its
  neighbours in the view; a route from \<open>s\<close> to \<open>d\<close> is a walk that starts at \<open>s\<close> and ends
  at \<open>d\<close>. The length of the list is the number of identities on it.
\<close>

fun is_walk :: "network_view \<Rightarrow> identity list \<Rightarrow> bool" where
  "is_walk g [] = False"
| "is_walk g [v] = True"
| "is_walk g (u # v # r) = (v \<in> set (view_get g u) \<and> is_walk g (v # r))"

definition is_route :: "network_view \<Rightarrow> identity \<Rightarrow> identity \<Rightarrow> identity list \<Rightarrow> bool" where
  "is_route g s d p = (is_walk g p \<and> hd p = s \<and> last p = d)"

definition shortest_route :: "network_view \<Rightarrow> identity \<Rightarrow> identity \<Rightarrow> identity list \<Rightarrow> bool" where
  "shortest_route g s d p =
     (is_route g s d p \<and> (\<forall>p'. is_route g s d p' \<longrightarrow> length p \<le> length p'))"

definition bfs_inv ::
  "network_view \<Rightarrow> identity \<Rightarrow> identity \<Rightarrow> identity set \<Rightarrow>
   (identity \<times> identity list) list \<Rightarrow> bool" where
  "bfs_inv g s dest V Q =
     (s \<in> V \<and> dest \<notin> V \<and>
      (\<forall>e \<in> set Q. fst e \<in> V \<and> shortest_route g s (fst e) (snd e)) \<and>
      sorted (map (\<lambda>e. length (snd e)) Q) \<and>
      (\<forall>e \<in> set Q. length (snd e) \<le> Suc (length (snd (hd Q)))) \<and>
      (\<forall>v \<in> V. v \<in> fst ` set Q \<or> set (view_get g v) \<subseteq> V))"

lemma is_walk_nonempty: "is_walk g p \<Longrightarrow> p \<noteq> []"
  by (cases p) simp_all

lemma is_walk_snoc:
  "p \<noteq> [] \<Longrightarrow> is_walk g (p @ [w]) = (is_walk g p \<and> w \<in> set (view_get g (last p)))"
proof (induction g p rule: is_walk.induct)
  case (1 g)
  then show ?case by simp
next
  case (2 g v)
  then show ?case by simp
next
  case (3 g u v r)
  then show ?case by auto
qed

lemma is_route_snoc:
  "is_route g s c p \<Longrightarrow> n \<in> set (view_get g c) \<Longrightarrow> is_route g s n (p @ [n])"
  unfolding is_route_def
  by (auto simp: is_walk_snoc is_walk_nonempty)

lemma unvisited_far:
  assumes inv: "bfs_inv g s dest V Q"
  shows "is_walk g p' \<Longrightarrow> hd p' = s \<Longrightarrow> last p' \<notin> V \<Longrightarrow>
         Q \<noteq> [] \<and> Suc (length (snd (hd Q))) \<le> length p'"
proof (induction p' rule: rev_induct)
  case Nil
  then show ?case by simp
next
  case (snoc w q)
  from inv have sV: "s \<in> V" by (simp add: bfs_inv_def)
  show ?case
  proof (cases "q = []")
    case True
    with snoc.prems sV show ?thesis by simp
  next
    case False
    with snoc.prems have wq: "is_walk g q" and wn: "w \<in> set (view_get g (last q))"
      and hq: "hd q = s" and wV: "w \<notin> V"
      by (simp_all add: is_walk_snoc)
    show ?thesis
    proof (cases "last q \<in> V")
      case True
      with inv wn wV have "last q \<in> fst ` set Q"
        unfolding bfs_inv_def by blast
      then obtain e where e: "e \<in> set Q" and fe: "fst e = last q"
        by auto
      from e have ne: "Q \<noteq> []" by auto
      from inv e have "shortest_route g s (fst e) (snd e)"
        unfolding bfs_inv_def by blast
      moreover have "is_route g s (fst e) q"
        using wq hq fe by (simp add: is_route_def)
      ultimately have le: "length (snd e) \<le> length q"
        unfolding shortest_route_def by blast
      from inv have "sorted (map (\<lambda>e. length (snd e)) Q)"
        by (simp add: bfs_inv_def)
      with ne e have "length (snd (hd Q)) \<le> length (snd e)"
        by (cases Q) auto
      with le ne show ?thesis by simp
    next
      case False
      from snoc.IH [OF wq hq False] show ?thesis by simp
    qed
  qed
qed

lemma scan_neighbors_inv:
  assumes "bfs_inv g s dest V ((c, p) # Q)" and "set ns \<subseteq> set (view_get g c)"
  shows "case scan_neighbors dest p ns V Q of
           Inl r \<Rightarrow> shortest_route g s dest r
         | Inr (V', Q') \<Rightarrow> bfs_inv g s dest V' ((c, p) # Q') \<and> V \<union> set ns \<subseteq> V'"
  using assms
proof (induction ns arbitrary: V Q)
  case Nil
  then show ?case by simp
next
  case (Cons n ns)
  note inv = Cons.prems(1)
  from Cons.prems have nc: "n \<in> set (view_get g c)" and sub: "set ns \<subseteq> set (view_get g c)"
    by simp_all
  from inv have cp: "shortest_route g s c p"
    unfolding bfs_inv_def by simp
  then have "is_route g s c p"
    by (simp add: shortest_route_def)
  then have rn: "is_route g s n (p @ [n])"
    using nc by (rule is_route_snoc)
  have far: "length (p @ [n]) \<le> length p'" if "is_route g s w p'" and "w \<notin> V" for w p'
    using unvisited_far [OF inv, of p'] that by (simp add: is_route_def)
  show ?case
  proof (cases "n = dest")
    case True
    from inv have "dest \<notin> V" by (simp add: bfs_inv_def)
    with far True rn have "shortest_route g s dest (p @ [n])"
      unfolding shortest_route_def by blast
    with True show ?thesis by simp
  next
    case nd: False
    show ?thesis
    proof (cases "n \<in> V")
      case True
      from Cons.IH [OF inv sub] True nd show ?thesis
        by (auto split: sum.splits)
    next
      case nv: False
      have sh: "shortest_route g s n (p @ [n])"
        unfolding shortest_route_def using rn far nv by blast
      have inv': "bfs_inv g s dest (insert n V) ((c, p) # (Q @ [(n, p @ [n])]))"
        using inv nd sh unfolding bfs_inv_def
        by (auto simp: sorted_append)
      from Cons.IH [OF inv' sub] nv nd show ?thesis
        by (auto split: sum.splits)
    qed
  qed
qed

lemma bfs_inv_pop:
  assumes "bfs_inv g s dest V ((c, p) # Q)" and "set (view_get g c) \<subseteq> V"
  shows "bfs_inv g s dest V Q"
proof -
  have "length (snd e) \<le> Suc (length (snd (hd Q)))" if "e \<in> set Q" for e
  proof -
    from that have "Q \<noteq> []" by auto
    then have "hd Q \<in> set Q" by simp
    with assms(1) have "length p \<le> length (snd (hd Q))"
      by (auto simp: bfs_inv_def)
    moreover from assms(1) that have "length (snd e) \<le> Suc (length p)"
      by (auto simp: bfs_inv_def)
    ultimately show ?thesis by simp
  qed
  with assms show ?thesis
    unfolding bfs_inv_def by auto
qed

lemma bfs_loop_correct:
  "bfs_inv g s dest V Q \<Longrightarrow>
   (case bfs_loop g dest V Q of
      Some r \<Rightarrow> shortest_route g s dest r
    | None \<Rightarrow> \<forall>p'. \<not> is_route g s dest p')"
proof (induction g dest V Q rule: bfs_loop.induct)
  case (1 g dest visited)
  have "\<not> is_route g s dest p'" for p'
  proof
    assume "is_route g s dest p'"
    moreover from 1 have "dest \<notin> visited" by (simp add: bfs_inv_def)
    ultimately show False
      using unvisited_far [OF 1, of p'] by (simp add: is_route_def)
  qed
  then show ?case by simp
next
  case (2 g dest visited current path queue)
  from scan_neighbors_inv [OF "2.prems" subset_refl]
  show ?case
  proof (cases "scan_neighbors dest path (view_get g current) visited queue")
    case (Inl r)
    with scan_neighbors_inv [OF "2.prems" subset_refl] show ?thesis by simp
  next
    case (Inr vq)
    obtain V' Q' where vq: "vq = (V', Q')" by (cases vq)
    with Inr scan_neighbors_inv [OF "2.prems" subset_refl]
    have "bfs_inv g s dest V' ((current, path) # Q')" and "set (view_get g current) \<subseteq> V'"
      by simp_all
    then have "bfs_inv g s dest V' Q'" by (rule bfs_inv_pop)
    from "2.IH" [OF Inr vq [symmetric] this] Inr vq show ?thesis by simp
  qed
qed

lemma bfs_inv_init: "s \<noteq> dest \<Longrightarrow> bfs_inv g s dest {s} [(s, [s])]"
  unfolding bfs_inv_def shortest_route_def is_route_def
  by (auto dest: is_walk_nonempty simp: Suc_le_eq)

text \<open>
  Claim C1. For every view and every destination: \<open>find_route\<close> returns \<open>[self]\<close> when the
  destination is this node; it returns none when the destination is not a key of the view
  or when no route leads to it; and when the destination is a key of the view and some
  route \<open>p'\<close> leads to it, it returns a route that is no longer than \<open>p'\<close> (for every such
  \<open>p'\<close>: a minimum-length route). Which of several shortest routes is returned is fixed by
  the order in which the neighbours are iterated: the first one found.
\<close>

theorem find_route_shortest:
  "find_route self self g = Some [self] \<and>
   (self \<noteq> dest \<longrightarrow> map_of g dest = None \<longrightarrow> find_route self dest g = None) \<and>
   (self \<noteq> dest \<longrightarrow> (\<forall>q. \<not> is_route g self dest q) \<longrightarrow> find_route self dest g = None) \<and>
   (self \<noteq> dest \<longrightarrow> map_of g dest \<noteq> None \<longrightarrow> is_route g self dest p' \<longrightarrow>
      (\<exists>p. find_route self dest g = Some p \<and> is_route g self dest p \<and>
           length p \<le> length p'))"
proof -
  have loop: "case bfs_loop g dest {self} [(self, [self])] of
                Some r \<Rightarrow> shortest_route g self dest r
              | None \<Rightarrow> \<forall>q. \<not> is_route g self dest q"
    if "self \<noteq> dest"
    using bfs_loop_correct [OF bfs_inv_init [OF that]] .
  have a: "find_route self self g = Some [self]"
    by (simp add: find_route_def)
  have b: "find_route self dest g = None" if "self \<noteq> dest" "map_of g dest = None"
    using that by (simp add: find_route_def)
  have c: "find_route self dest g = None" if "self \<noteq> dest" "\<forall>q. \<not> is_route g self dest q"
  proof (cases "bfs_loop g dest {self} [(self, [self])]")
    case None
    with that show ?thesis by (simp add: find_route_def)
  next
    case (Some r)
    with loop [OF that(1)] have "is_route g self dest r"
      by (simp add: shortest_route_def)
    with that(2) show ?thesis by blast
  qed
  have d: "\<exists>p. find_route self dest g = Some p \<and> is_route g self dest p \<and>
             length p \<le> length p'"
    if "self \<noteq> dest" "map_of g dest \<noteq> None" "is_route g self dest p'"
  proof (cases "bfs_loop g dest {self} [(self, [self])]")
    case None
    with loop [OF that(1)] that(3) show ?thesis by simp
  next
    case (Some r)
    with loop [OF that(1)] have "shortest_route g self dest r" by simp
    with that(3) have "is_route g self dest r" and "length r \<le> length p'"
      by (simp_all add: shortest_route_def)
    moreover from that Some have "find_route self dest g = Some r"
      by (simp add: find_route_def)
    ultimately show ?thesis by blast
  qed
  from a b c d show ?thesis by blast
qed

text \<open>
  The theorem at the view \<^verbatim>\<open>{A: [B, C], B: [D], C: [D], D: [], E: []}\<close>: two shortest routes lead
  from A to D and the one through B, found first, is returned; E is a key of the view that
  no route reaches (shown at the smaller view \<^verbatim>\<open>{A: [], E: []}\<close>); F is not a key of the view.
\<close>

theorem find_route_shortest_witness:
  "find_route ''A'' ''A'' [(''A'', [''B'', ''C'']), (''B'', [''D'']), (''C'', [''D'']), (''D'', []), (''E'', [])]
     = Some [''A''] \<and>
   find_route ''A'' ''F'' [(''A'', [''B'', ''C'']), (''B'', [''D'']), (''C'', [''D'']), (''D'', []), (''E'', [])]
     = None \<and>
   find_route ''A'' ''E'' [(''A'', []), (''E'', [])] = None \<and>
   is_route [(''A'', [''B'', ''C'']), (''B'', [''D'']), (''C'', [''D'']), (''D'', []), (''E'', [])]
     ''A'' ''D'' [''A'', ''C'', ''D''] \<and>
   find_route ''A'' ''D'' [(''A'', [''B'', ''C'']), (''B'', [''D'']), (''C'', [''D'']), (''D'', []), (''E'', [])]
     = Some [''A'', ''B'', ''D''] \<and>
   (\<exists>p. find_route ''A'' ''D'' [(''A'', [''B'', ''C'']), (''B'', [''D'']), (''C'', [''D'']), (''D'', []), (''E'', [])]
          = Some p \<and> length p \<le> length [''A'', ''C'', ''D''])"
proof -
  let ?g = "[(''A'', [''B'', ''C'']), (''B'', [''D'']), (''C'', [''D'']), (''D'', []), (''E'', [])]"
  have r: "is_route ?g ''A'' ''D'' [''A'', ''C'', ''D'']"
    by (simp add: is_route_def view_get_def)
  have k: "map_of ?g ''D'' \<noteq> None" and n: "''A'' \<noteq> ''D''" and u: "map_of ?g ''F'' = None"
    and m: "''A'' \<noteq> ''F''"
    by simp_all
  have e: "find_route ''A'' ''D'' ?g = Some [''A'', ''B'', ''D'']"
    by (simp add: find_route_def view_get_def)
  from find_route_shortest [of "''A''" ?g "''D''" "[''A'', ''C'', ''D'']"] r k n
  have "\<exists>p. find_route ''A'' ''D'' ?g = Some p \<and> is_route ?g ''A'' ''D'' p \<and>
          length p \<le> length [''A'', ''C'', ''D'']"
    by blast
  moreover from find_route_shortest [of "''A''" ?g "''F''"] u m
  have "find_route ''A'' ''F'' ?g = None" by blast
  moreover from find_route_shortest [of "''A''" ?g] have "find_route ''A'' ''A'' ?g = Some [''A'']"
    by blast
  moreover have "find_route ''A'' ''E'' [(''A'', []), (''E'', [])] = None"
  proof -
    have "\<not> is_route [(''A'', []), (''E'', [])] ''A'' ''E'' q" for q
    proof (cases q)
      case Nil
      then show ?thesis by (simp add: is_route_def)
    next
      case (Cons u r)
      then show ?thesis
        by (cases r) (auto simp: is_route_def view_get_def)
    qed
    with find_route_shortest [of "''A''" "[(''A'', []), (''E'', [])]" "''E''"]
    show ?thesis by simp
  qed
  ultimately show ?thesis using r e by blast
qed

section \<open>Python floats\<close>

text \<open>
  A Python float is an IEEE binary64 number. It is modelled by its exact value, a real, and
  every operation on floats rounds its exact result to the nearest number with 53
  significant bits, a tie going to the one whose last bit is even: \<open>fl\<close>. A float literal
  such as \<^verbatim>\<open>0.1\<close> is \<open>fl (1 / 10)\<close>. The exponent is unbounded here: overflow to infinity,
  the reduced precision of subnormal numbers and NaN are not modelled.
\<close>

definition round_half_even :: "real \<Rightarrow> int" where
  "round_half_even y =
     (let f = \<lfloor>y\<rfloor>; d = y - of_int f
      in if d < 1 / 2 then f else if 1 / 2 < d then f + 1 else if even f then f else f + 1)"

definition fl :: "real \<Rightarrow> real" where
  "fl x =
     (if x = 0 then 0
      else (let e = \<lfloor>log 2 \<bar>x\<bar>\<rfloor> - 52
            in of_int (round_half_even (x / 2 powr of_int e)) * 2 powr of_int e))"

text \<open>\<^verbatim>\<open>a + b\<close>, \<^verbatim>\<open>a - b\<close>, \<^verbatim>\<open>a * b\<close> and \<^verbatim>\<open>a / b\<close> on floats.\<close>

definition fadd :: "real \<Rightarrow> real \<Rightarrow> real" where
  "fadd a b = fl (a + b)"

definition fsub :: "real \<Rightarrow> real \<Rightarrow> real" where
  "fsub a b = fl (a - b)"

definition fmul :: "real \<Rightarrow> real \<Rightarrow> real" where
  "fmul a b = fl (a * b)"

definition fdiv :: "real \<Rightarrow> real \<Rightarrow> real" where
  "fdiv a b = fl (a / b)"

text \<open>
  \<^verbatim>\<open>round(x, 2)\<close> on a float: the exact value of \<open>x\<close> is rounded to two decimals, a tie
  going to the even one, and the float nearest to that decimal is returned.
\<close>

definition round2 :: "real \<Rightarrow> real" where
  "round2 x = fl (of_int (round_half_even (x * 100)) / 100)"

lemma fl_zero: "fl 0 = 0"
  by (simp add: fl_def)

text \<open>
  How \<open>fl\<close> is computed below \<open>2 ^ 53\<close>: scale by the power of two that brings the number
  between \<open>2 ^ 52\<close> and \<open>2 ^ 53\<close>, round to an integer, scale back.
\<close>

lemma fl_small:
  assumes lo: "2 ^ 52 \<le> \<bar>x\<bar> * 2 ^ n" and hi: "\<bar>x\<bar> * 2 ^ n < 2 ^ 53"
  shows "fl x = of_int (round_half_even (x * 2 ^ n)) / 2 ^ n"
proof -
  from lo have x0: "x \<noteq> 0" by auto
  then have ax: "0 < \<bar>x\<bar>" by simp
  have p: "(2::real) powr of_int (52 - int n) = 2 ^ 52 / 2 ^ n"
    by (simp add: powr_diff powr_realpow)
  have q: "(2::real) powr (of_int (52 - int n) + 1) = 2 ^ 53 / 2 ^ n"
  proof -
    have "(2::real) powr (of_int (52 - int n) + 1) = 2 powr of_int (52 - int n) * 2 powr 1"
      by (rule powr_add)
    also have "\<dots> = 2 ^ 52 / 2 ^ n * 2"
      unfolding p by simp
    finally show ?thesis by simp
  qed
  have q': "(2::real) powr of_int (52 - int n + 1) = 2 ^ 53 / 2 ^ n"
    using q by (simp add: add.commute)
  have "\<lfloor>log 2 \<bar>x\<bar>\<rfloor> = 52 - int n"
  proof -
    have "2 powr of_int (52 - int n) \<le> \<bar>x\<bar> \<and> \<bar>x\<bar> < 2 powr of_int (52 - int n + 1)"
      unfolding p q' using lo hi by (simp add: field_simps)
    with floor_log_eq_powr_iff [of "\<bar>x\<bar>" 2 "52 - int n"] ax show ?thesis
      by simp
  qed
  then have e: "\<lfloor>log 2 \<bar>x\<bar>\<rfloor> - 52 = - int n" by simp
  have r: "(2::real) powr of_int (- int n) = 1 / 2 ^ n"
    by (simp add: powr_minus powr_realpow divide_inverse)
  show ?thesis
    unfolding fl_def Let_def e r using x0 by simp
qed

section \<open>Messages (core/message.py)\<close>

datatype MessageType =
  TEXT | VOICE | FILE | ACK | ROUTE_REQUEST | ROUTE_REPLY | ROUTE_ERROR | HEARTBEAT

datatype MessagePriority = LOW | NORMAL | HIGH | URGENT

fun priority_value :: "MessagePriority \<Rightarrow> int" where
  "priority_value LOW = 0"
| "priority_value NORMAL = 1"
| "priority_value HIGH = 2"
| "priority_value URGENT = 3"

text \<open>
  Values that Python's \<^verbatim>\<open>json\<close> module writes and reads: the payload's metadata and
  attachments, and the dict a message is serialised from. A dict is an association list
  in insertion order.
\<close>

datatype json =
  JNull | JBool bool | JInt int | JFloat real | JStr string
| JArr "json list" | JObj "(string \<times> json) list"

record MessageHeader =
  message_id :: string
  sender_id :: identity
  recipient_id :: identity
  timestamp :: real
  message_type :: MessageType
  priority :: MessagePriority
  ttl :: int
  sequence_number :: int

record MessagePayload =
  content :: string
  content_type :: string
  metadata :: "(string \<times> json) list"
  attachments :: "(string \<times> json) list list"

text \<open>The \<^verbatim>\<open>OnionLayer\<close> dataclass of core/message.py (crypto/onion.py has another one).\<close>

record MsgOnionLayer =
  next_hop :: identity
  layer_encrypted :: bool
  layer_data :: "string option"

record Message =
  header :: MessageHeader
  payload :: MessagePayload
  onion_layers :: "MsgOnionLayer list"
  hops_taken :: "identity list"
  energy_cost :: real
  is_encrypted :: bool
  signature :: "string option"

subsection \<open>The size of a payload: \<^verbatim>\<open>len(json.dumps(self.to_dict()).encode('utf-8'))\<close>\<close>

text \<open>
  \<^verbatim>\<open>json.dumps\<close> with its defaults: separators \<^verbatim>\<open>", "\<close> and \<^verbatim>\<open>": "\<close>, and \<^verbatim>\<open>ensure_ascii\<close>, under
  which the output is ASCII and its UTF-8 encoding has one byte per character. A character
  of a \<open>string\<close> stands for the code point of the same number (0 to 255). The text that
  Python's \<^verbatim>\<open>repr\<close> gives a float is library code and is taken as the parameter \<open>float_repr\<close>.
\<close>

fun str_nat :: "nat \<Rightarrow> string" where
  "str_nat n =
     (if n < 10 then [''0123456789'' ! n]
      else str_nat (n div 10) @ [''0123456789'' ! (n mod 10)])"

declare str_nat.simps [simp del]

definition str_int :: "int \<Rightarrow> string" where
  "str_int i = (if i < 0 then ''-'' @ str_nat (nat (- i)) else str_nat (nat i))"

definition hex_digit :: "nat \<Rightarrow> char" where
  "hex_digit n = ''0123456789abcdef'' ! n"

text \<open>One character of a JSON string, as \<^verbatim>\<open>py_encode_basestring_ascii\<close> writes it.\<close>

definition json_escape_char :: "char \<Rightarrow> string" where
  "json_escape_char c =
     (if c = CHR 0x22 then [CHR 0x5C, CHR 0x22]
      else if c = CHR 0x5C then [CHR 0x5C, CHR 0x5C]
      else if c = CHR 0x0A then [CHR 0x5C, CHR ''n'']
      else if c = CHR 0x0D then [CHR 0x5C, CHR ''r'']
      else if c = CHR 0x09 then [CHR 0x5C, CHR ''t'']
      else if c = CHR 0x08 then [CHR 0x5C, CHR ''b'']
      else if c = CHR 0x0C then [CHR 0x5C, CHR ''f'']
      else if 32 \<le> (of_char c :: nat) \<and> (of_char c :: nat) \<le> 126 then [c]
      else [CHR 0x5C, CHR ''u'', CHR ''0'', CHR ''0'',
            hex_digit ((of_char c :: nat) div 16), hex_digit ((of_char c :: nat) mod 16)])"

definition json_str :: "string \<Rightarrow> string" where
  "json_str s = [CHR 0x22] @ concat (map json_escape_char s) @ [CHR 0x22]"

fun join_comma :: "string list \<Rightarrow> string" where
  "join_comma [] = []"
| "join_comma [x] = x"
| "join_comma (x # y # r) = x @ '', '' @ join_comma (y # r)"

fun json_dumps :: "(real \<Rightarrow> string) \<Rightarrow> json \<Rightarrow> string" where
  "json_dumps float_repr JNull = ''null''"
| "json_dumps float_repr (JBool b) = (if b then ''true'' else ''false'')"
| "json_dumps float_repr (JInt i) = str_int i"
| "json_dumps float_repr (JFloat r) = float_repr r"
| "json_dumps float_repr (JStr s) = json_str s"
| "json_dumps float_repr (JArr xs) = ''['' @ join_comma (map (json_dumps float_repr) xs) @ '']''"
| "json_dumps float_repr (JObj kvs) =
     ''{'' @ join_comma (map (\<lambda>(k, v). json_str k @ '': '' @ json_dumps float_repr v) kvs) @ ''}''"

text \<open>\<^verbatim>\<open>MessagePayload.to_dict\<close> and \<^verbatim>\<open>MessagePayload.get_size_bytes\<close>\<close>

definition payload_to_dict :: "MessagePayload \<Rightarrow> json" where
  "payload_to_dict p =
     JObj [(''content'', JStr (content p)),
           (''content_type'', JStr (content_type p)),
           (''metadata'', JObj (metadata p)),
           (''attachments'', JArr (map JObj (attachments p)))]"

definition get_size_bytes :: "(real \<Rightarrow> string) \<Rightarrow> MessagePayload \<Rightarrow> nat" where
  "get_size_bytes float_repr p = length (json_dumps float_repr (payload_to_dict p))"

subsection \<open>Creating messages, hops and cost\<close>

text \<open>
  \<^verbatim>\<open>str(uuid.uuid4())\<close> and \<^verbatim>\<open>time.time()\<close> are inputs of the model: the arguments \<open>uuid\<close>
  and \<open>now\<close>.
\<close>

definition create_text_message ::
  "identity \<Rightarrow> identity \<Rightarrow> string \<Rightarrow> MessagePriority \<Rightarrow> string \<Rightarrow> real \<Rightarrow> Message" where
  "create_text_message sender recipient text' prio uuid now =
     \<lparr>header = \<lparr>message_id = uuid, sender_id = sender, recipient_id = recipient,
                timestamp = now, message_type = TEXT, priority = prio, ttl = 10,
                sequence_number = 0\<rparr>,
      payload = \<lparr>content = text', content_type = ''text/plain'', metadata = [],
                 attachments = []\<rparr>,
      onion_layers = [], hops_taken = [], energy_cost = 0, is_encrypted = False,
      signature = None\<rparr>"

definition create_ack :: "string \<Rightarrow> identity \<Rightarrow> identity \<Rightarrow> string \<Rightarrow> real \<Rightarrow> Message" where
  "create_ack original_message_id sender recipient uuid now =
     \<lparr>header = \<lparr>message_id = uuid, sender_id = sender, recipient_id = recipient,
                timestamp = now, message_type = ACK, priority = HIGH, ttl = 5,
                sequence_number = 0\<rparr>,
      payload = \<lparr>content = original_message_id, content_type = ''application/json'',
                 metadata = [(''ack_for'', JStr original_message_id)], attachments = []\<rparr>,
      onion_layers = [], hops_taken = [], energy_cost = 0, is_encrypted = False,
      signature = None\<rparr>"

definition add_hop :: "Message \<Rightarrow> identity \<Rightarrow> Message" where
  "add_hop m node =
     m\<lparr>hops_taken := hops_taken m @ [node],
       header := (header m)\<lparr>ttl := ttl (header m) - 1\<rparr>\<rparr>"

definition is_expired :: "Message \<Rightarrow> bool" where
  "is_expired m = (ttl (header m) \<le> 0)"

definition should_relay :: "Message \<Rightarrow> identity \<Rightarrow> bool" where
  "should_relay m current_node_id =
     (if is_expired m then False
      else if recipient_id (header m) = current_node_id then False
      else if current_node_id \<in> set (hops_taken m) then False
      else True)"

fun priority_factor :: "MessagePriority \<Rightarrow> real" where
  "priority_factor LOW = 0.5"
| "priority_factor NORMAL = 1.0"
| "priority_factor HIGH = 1.5"
| "priority_factor URGENT = 2.0"

definition calculate_energy_cost :: "(real \<Rightarrow> string) \<Rightarrow> Message \<Rightarrow> real" where
  "calculate_energy_cost float_repr m =
     (let base_cost = 100;
          size_kb = fdiv (real (get_size_bytes float_repr (payload m))) 1024;
          size_factor = fadd 1 (fmul size_kb (fl (1 / 10)));
          expected_hops = 10 - ttl (header m);
          hop_factor = fadd 1 (fmul (fl (of_int expected_hops)) (fl (1 / 5)));
          total_cost = fmul (fmul (fmul base_cost size_factor)
                         (priority_factor (priority (header m)))) hop_factor
      in round2 total_cost)"

definition get_relay_reward :: "(real \<Rightarrow> string) \<Rightarrow> Message \<Rightarrow> real" where
  "get_relay_reward float_repr m =
     round2 (fmul (calculate_energy_cost float_repr m) (fl (1 / 10)))"

section \<open>Energy accounts (core/energy.py)\<close>

text \<open>
  Where two classes have a field of the same name, the fields of the later record carry a
  prefix: \<open>tx_timestamp\<close> and \<open>tx_message_id\<close> of a transaction, \<open>account_node_id\<close> of an
  account, \<open>config_node_id\<close> and \<open>config_is_plugged_in\<close> of a node's configuration,
  \<open>router_node_id\<close> and \<open>router_neighbors\<close> of a router.
\<close>

record EnergyTransaction =
  transaction_id :: string
  tx_timestamp :: real
  from_node :: identity
  to_node :: identity
  amount :: real
  reason :: string
  tx_message_id :: "string option"

record EnergyAccount =
  account_node_id :: identity
  balance :: real
  total_earned :: real
  total_spent :: real
  messages_sent :: int
  messages_relayed :: int
  messages_received :: int
  transactions :: "EnergyTransaction list"
  is_plugged_in :: bool
  relay_multiplier :: real

text \<open>
  The dataclass constructor with the defaults of its fields; \<^verbatim>\<open>EnergyAccount(node_id=..,
  balance=.., is_plugged_in=..)\<close> leaves \<^verbatim>\<open>relay_multiplier\<close> at its default 1.0.
\<close>

definition new_account :: "identity \<Rightarrow> real \<Rightarrow> bool \<Rightarrow> real \<Rightarrow> EnergyAccount" where
  "new_account node initial plugged multiplier =
     \<lparr>account_node_id = node, balance = initial, total_earned = 0, total_spent = 0,
      messages_sent = 0, messages_relayed = 0, messages_received = 0, transactions = [],
      is_plugged_in = plugged, relay_multiplier = multiplier\<rparr>"

definition can_afford :: "EnergyAccount \<Rightarrow> real \<Rightarrow> bool" where
  "can_afford a amt = (amt \<le> balance a)"

text \<open>
  \<^verbatim>\<open>datetime.now().timestamp()\<close> is the argument \<open>now\<close>. \<open>debit\<close> returns the flag the Python
  method returns, with the account as the call leaves it.
\<close>

definition debit ::
  "EnergyAccount \<Rightarrow> real \<Rightarrow> string \<Rightarrow> string option \<Rightarrow> real \<Rightarrow> bool \<times> EnergyAccount" where
  "debit a amt why mid now =
     (if \<not> can_afford a amt then (False, a)
      else (True,
        a\<lparr>balance := fsub (balance a) amt,
          total_spent := fadd (total_spent a) amt,
          messages_sent := (if why = ''send'' then messages_sent a + 1 else messages_sent a),
          transactions := transactions a @
            [\<lparr>transaction_id = ''tx_'' @ str_nat (length (transactions a)),
              tx_timestamp = now, from_node = account_node_id a, to_node = ''network'',
              amount = amt, reason = why, tx_message_id = mid\<rparr>]\<rparr>))"

definition credit ::
  "EnergyAccount \<Rightarrow> real \<Rightarrow> string \<Rightarrow> identity \<Rightarrow> string option \<Rightarrow> real \<Rightarrow> EnergyAccount" where
  "credit a amt0 why from mid now =
     (let amt = (if why = ''relay'' \<and> is_plugged_in a then fmul amt0 (relay_multiplier a)
                 else amt0)
      in a\<lparr>balance := fadd (balance a) amt,
           total_earned := fadd (total_earned a) amt,
           messages_relayed :=
             (if why = ''relay'' then messages_relayed a + 1 else messages_relayed a),
           messages_received :=
             (if why = ''relay'' then messages_received a
              else if why = ''receive'' then messages_received a + 1
              else messages_received a),
           transactions := transactions a @
             [\<lparr>transaction_id = ''tx_'' @ str_nat (length (transactions a)),
               tx_timestamp = now, from_node = from, to_node = account_node_id a,
               amount = amt, reason = why, tx_message_id = mid\<rparr>]\<rparr>)"

text \<open>\<^verbatim>\<open>EnergyMarket.create_account\<close>, the other place that builds an account.\<close>

definition create_account :: "identity \<Rightarrow> real \<Rightarrow> bool \<Rightarrow> EnergyAccount" where
  "create_account node initial_balance plugged =
     new_account node initial_balance plugged (if plugged then 1.5 else 1.0)"

text \<open>
  \<^verbatim>\<open>EnergyMarket.calculate_send_cost\<close>, the market's price of a send. The priority is an
  index into the list of factors (Python takes \<open>-4\<close> to \<open>3\<close> and raises for any other
  index: the result \<open>None\<close>); \<open>base_send_cost\<close> is the field of the market, \<open>100.0\<close> in
  every market \<^verbatim>\<open>__init__\<close> builds.
\<close>

definition calculate_send_cost :: "real \<Rightarrow> real \<Rightarrow> int \<Rightarrow> int \<Rightarrow> real option" where
  "calculate_send_cost base_send_cost message_size_kb prio num_hops =
     (let size_factor = fadd 1 (fmul message_size_kb (fl (1 / 10)))
      in if prio < - 4 \<or> 4 \<le> prio then None
         else
           (let priority_factor = [0.5, 1.0, 1.5, 2.0] ! nat (prio mod 4);
                hop_factor = fadd 1 (fmul (fl (of_int num_hops)) (fl (1 / 5)));
                cost = fmul (fmul (fmul base_send_cost size_factor) priority_factor) hop_factor
            in Some (round2 cost)))"

section \<open>Nodes (core/node.py)\<close>

record NodeConfig =
  config_node_id :: identity
  enable_relay :: bool
  config_is_plugged_in :: bool
  max_relay_queue :: int
  initial_energy :: real
  ble_range :: real
  wifi_range :: real

text \<open>The \<^verbatim>\<open>stats\<close> dict of a node, one field for each of its five keys.\<close>

record NodeStats =
  stat_messages_sent :: int
  stat_messages_relayed :: int
  stat_messages_received :: int
  stat_messages_dropped :: int
  stat_relay_queue_full :: int

text \<open>
  Of the node's \<^verbatim>\<open>Router\<close> only the identity matters to \<^verbatim>\<open>find_route\<close>; its neighbour set is
  kept, its route cache is not modelled.
\<close>

record Router =
  router_node_id :: identity
  router_neighbors :: "identity set"

record MeshNode =
  config :: NodeConfig
  node_id :: identity
  router :: Router
  energy_account :: EnergyAccount
  neighbors :: "identity set"
  network_graph :: network_view
  outgoing_queue :: "Message list"
  relay_queue :: "Message list"
  received_messages :: "Message list"
  stats :: NodeStats
  seen_message_ids :: "string set"

text \<open>\<^verbatim>\<open>MeshNode.__init__\<close>\<close>

definition MeshNode_init :: "NodeConfig \<Rightarrow> MeshNode" where
  "MeshNode_init cfg =
     \<lparr>config = cfg,
      node_id = config_node_id cfg,
      router = \<lparr>router_node_id = config_node_id cfg, router_neighbors = {}\<rparr>,
      energy_account =
        new_account (config_node_id cfg) (initial_energy cfg) (config_is_plugged_in cfg) 1.0,
      neighbors = {},
      network_graph = [],
      outgoing_queue = [],
      relay_queue = [],
      received_messages = [],
      stats = \<lparr>stat_messages_sent = 0, stat_messages_relayed = 0, stat_messages_received = 0,
                stat_messages_dropped = 0, stat_relay_queue_full = 0\<rparr>,
      seen_message_ids = {}\<rparr>"

definition update_neighbors :: "MeshNode \<Rightarrow> identity set \<Rightarrow> MeshNode" where
  "update_neighbors n ns = n\<lparr>neighbors := ns, router := (router n)\<lparr>router_neighbors := ns\<rparr>\<rparr>"

definition update_network_graph :: "MeshNode \<Rightarrow> network_view \<Rightarrow> MeshNode" where
  "update_network_graph n g = n\<lparr>network_graph := g\<rparr>"

text \<open>
  \<^verbatim>\<open>MeshNode.send_message\<close> returns the message or \<^verbatim>\<open>None\<close>; the model returns the message
  or which of the two refusals it was (the Python prints it), and the node as the call
  leaves it. \<open>uuid\<close> and \<open>now\<close> are the fresh id and the clock reading of the new message,
  \<open>tx_now\<close> the clock reading of the ledger entry.
\<close>

datatype send_refusal = InsufficientEnergy | NoRoute

definition send_message ::
  "(real \<Rightarrow> string) \<Rightarrow> MeshNode \<Rightarrow> identity \<Rightarrow> string \<Rightarrow> MessagePriority \<Rightarrow>
   string \<Rightarrow> real \<Rightarrow> real \<Rightarrow> (send_refusal + Message) \<times> MeshNode" where
  "send_message float_repr n recipient text' prio uuid now tx_now =
     (let msg = create_text_message (node_id n) recipient text' prio uuid now;
          cost = calculate_energy_cost float_repr msg
      in if \<not> can_afford (energy_account n) cost then (Inl InsufficientEnergy, n)
         else (case find_route (router_node_id (router n)) recipient (network_graph n) of
                 None \<Rightarrow> (Inl NoRoute, n)
               | Some route \<Rightarrow>
                   if route = [] then (Inl NoRoute, n)
                   else
                     (let acct = snd (debit (energy_account n) cost ''send''
                                        (Some (message_id (header msg))) tx_now);
                          msg1 = msg\<lparr>energy_cost := cost\<rparr>;
                          msg2 = add_hop msg1 (node_id n)
                      in (Inr msg2,
                          n\<lparr>energy_account := acct,
                            outgoing_queue := outgoing_queue n @ [msg2],
                            stats := (stats n)\<lparr>stat_messages_sent :=
                                       stat_messages_sent (stats n) + 1\<rparr>\<rparr>))))"

text \<open>
  \<^verbatim>\<open>MeshNode.receive_message\<close>: the returned flag and the node as the call leaves it.
  \<open>uuid\<close> and \<open>now\<close> are the id and the clock reading an acknowledgement would get,
  \<open>tx_now\<close> the clock reading of a ledger entry. Messages are values here: the relayed
  message, with this node's hop added, is the one put into the relay queue.
\<close>

definition drop_message :: "MeshNode \<Rightarrow> MeshNode" where
  "drop_message n =
     n\<lparr>stats := (stats n)\<lparr>stat_messages_dropped := stat_messages_dropped (stats n) + 1\<rparr>\<rparr>"

definition receive_message ::
  "(real \<Rightarrow> string) \<Rightarrow> MeshNode \<Rightarrow> Message \<Rightarrow> string \<Rightarrow> real \<Rightarrow> real \<Rightarrow> bool \<times> MeshNode" where
  "receive_message float_repr n msg uuid now tx_now =
     (if message_id (header msg) \<in> seen_message_ids n then (False, drop_message n)
      else
        (let n1 = n\<lparr>seen_message_ids := insert (message_id (header msg)) (seen_message_ids n)\<rparr>
         in if recipient_id (header msg) = node_id n1 then
              (let ack = create_ack (message_id (header msg)) (node_id n1)
                           (sender_id (header msg)) uuid now
               in (True,
                   n1\<lparr>received_messages := received_messages n1 @ [msg],
                      stats := (stats n1)\<lparr>stat_messages_received :=
                                 stat_messages_received (stats n1) + 1\<rparr>,
                      outgoing_queue := outgoing_queue n1 @ [ack]\<rparr>))
            else if \<not> enable_relay (config n1) then (False, drop_message n1)
            else if \<not> should_relay msg (node_id n1) then (False, drop_message n1)
            else if max_relay_queue (config n1) \<le> int (length (relay_queue n1)) then
              (False,
               drop_message
                 (n1\<lparr>stats := (stats n1)\<lparr>stat_relay_queue_full :=
                                stat_relay_queue_full (stats n1) + 1\<rparr>\<rparr>))
            else
              (let msg1 = add_hop msg (node_id n1);
                   relay_reward = get_relay_reward float_repr msg1;
                   acct = credit (energy_account n1) relay_reward ''relay''
                            (sender_id (header msg1)) (Some (message_id (header msg1))) tx_now
               in (True,
                   n1\<lparr>relay_queue := relay_queue n1 @ [msg1],
                      energy_account := acct,
                      stats := (stats n1)\<lparr>stat_messages_relayed :=
                                 stat_messages_relayed (stats n1) + 1\<rparr>\<rparr>))))"

text \<open>
  \<^verbatim>\<open>MeshNode.process_relay_queue\<close>: one pass over a copy of the relay queue; the result is
  the list of messages to forward and the node as the call leaves it.
\<close>

fun relay_pass :: "Message list \<Rightarrow> Message list \<times> MeshNode \<Rightarrow> Message list \<times> MeshNode" where
  "relay_pass [] (fwd, n) = (fwd, n)"
| "relay_pass (msg # rest) (fwd, n) =
     (case find_route (router_node_id (router n)) (recipient_id (header msg)) (network_graph n) of
        Some route \<Rightarrow>
          if 1 < length route
          then relay_pass rest (fwd @ [msg], n\<lparr>relay_queue := remove1 msg (relay_queue n)\<rparr>)
          else if is_expired msg
          then relay_pass rest (fwd, drop_message (n\<lparr>relay_queue := remove1 msg (relay_queue n)\<rparr>))
          else relay_pass rest (fwd, n)
      | None \<Rightarrow>
          if is_expired msg
          then relay_pass rest (fwd, drop_message (n\<lparr>relay_queue := remove1 msg (relay_queue n)\<rparr>))
          else relay_pass rest (fwd, n))"

definition process_relay_queue :: "MeshNode \<Rightarrow> Message list \<times> MeshNode" where
  "process_relay_queue n = relay_pass (relay_queue n) ([], n)"

section \<open>The roundings of the scenario values\<close>

text \<open>
  The floats that arise in the scenarios below, each computed by \<open>fl_small\<close>: the literals
  \<^verbatim>\<open>0.1\<close> and \<^verbatim>\<open>0.2\<close>, the cost of "hello" (size factor, product, \<^verbatim>\<open>round(.., 2)\<close>), the relay
  reward, and the balances after a debit or a credit.
\<close>

lemma fl_value_1: "fl (85 / 1024) = 85 / 1024"
  using fl_small [of "85 / 1024" 56]
  by (simp add: round_half_even_def Let_def)

lemma fl_value_2: "fl (1 / 10) = 3602879701896397 / 36028797018963968"
  using fl_small [of "1 / 10" 56]
  by (simp add: round_half_even_def Let_def)

lemma fl_value_3: "fl (306244774661193745 / 36893488147419103232) = 17 / 2048"
  using fl_small [of "306244774661193745 / 36893488147419103232" 59]
  by (simp add: round_half_even_def Let_def)

lemma fl_value_4: "fl (2065 / 2048) = 2065 / 2048"
  using fl_small [of "2065 / 2048" 52]
  by (simp add: round_half_even_def Let_def)

lemma fl_value_5: "fl (1 / 5) = 3602879701896397 / 18014398509481984"
  using fl_small [of "1 / 5" 55]
  by (simp add: round_half_even_def Let_def)

lemma fl_value_6: "fl 1 = 1"
  using fl_small [of "1" 52]
  by (simp add: round_half_even_def Let_def)

lemma fl_value_7: "fl (51625 / 512) = 51625 / 512"
  using fl_small [of "51625 / 512" 46]
  by (simp add: round_half_even_def Let_def)

lemma fl_value_8: "fl (10083 / 100) = 7095280475433861 / 70368744177664"
  using fl_small [of "10083 / 100" 46]
  by (simp add: round_half_even_def Let_def)

lemma fl_value_9: "fl 2 = 2"
  using fl_small [of "2" 51]
  by (simp add: round_half_even_def Let_def)

lemma fl_value_10: "fl (3602879701896397 / 9007199254740992) = 3602879701896397 / 9007199254740992"
  using fl_small [of "3602879701896397 / 9007199254740992" 54]
  by (simp add: round_half_even_def Let_def)

lemma fl_value_11: "fl (12610078956637389 / 9007199254740992) = 3152519739159347 / 2251799813685248"
  using fl_small [of "12610078956637389 / 9007199254740992" 52]
  by (simp add: round_half_even_def Let_def)

lemma fl_value_12: "fl (162748831534101288875 / 1152921504606846976) = 72275 / 512"
  using fl_small [of "162748831534101288875 / 1152921504606846976" 45]
  by (simp add: round_half_even_def Let_def)

lemma fl_value_13: "fl (3529 / 25) = 4966625964059525 / 35184372088832"
  using fl_small [of "3529 / 25" 45]
  by (simp add: round_half_even_def Let_def)

lemma fl_value_14: "fl (17894155872821686792507091031425 / 1267650600228229401496703205376) = 993325192811905 / 70368744177664"
  using fl_small [of "17894155872821686792507091031425 / 1267650600228229401496703205376" 49]
  by (simp add: round_half_even_def Let_def)

lemma fl_value_15: "fl (353 / 25) = 7948853342308925 / 562949953421312"
  using fl_small [of "353 / 25" 49]
  by (simp add: round_half_even_def Let_def)

lemma fl_value_16: "fl (7948853342308925 / 562949953421312) = 7948853342308925 / 562949953421312"
  using fl_small [of "7948853342308925 / 562949953421312" 49]
  by (simp add: round_half_even_def Let_def)

lemma fl_value_17: "fl (570898806763620925 / 562949953421312) = 8920293855681577 / 8796093022208"
  using fl_small [of "570898806763620925 / 562949953421312" 43]
  by (simp add: round_half_even_def Let_def)

lemma fl_value_18: "fl (25353 / 25) = 8920293855681577 / 8796093022208"
  using fl_small [of "25353 / 25" 43]
  by (simp add: round_half_even_def Let_def)

lemma fl_value_19: "fl (23846560026926775 / 1125899906842624) = 2980820003365847 / 140737488355328"
  using fl_small [of "23846560026926775 / 1125899906842624" 48]
  by (simp add: round_half_even_def Let_def)

lemma fl_value_20: "fl (25563442004202475097293047698817 / 2535301200456458802993406410752) = 5676224380347089 / 562949953421312"
  using fl_small [of "25563442004202475097293047698817 / 2535301200456458802993406410752" 49]
  by (simp add: round_half_even_def Let_def)

lemma fl_value_21: "fl (17028673141041267 / 1125899906842624) = 4257168285260317 / 281474976710656"
  using fl_small [of "17028673141041267 / 1125899906842624" 49]
  by (simp add: round_half_even_def Let_def)

lemma fl_value_22: "fl (63273463702230139 / 70368744177664) = 7909182962778767 / 8796093022208"
  using fl_small [of "63273463702230139 / 70368744177664" 43]
  by (simp add: round_half_even_def Let_def)

lemma fl_value_23: "fl (89917 / 100) = 7909182962778767 / 8796093022208"
  using fl_small [of "89917 / 100" 43]
  by (simp add: round_half_even_def Let_def)

lemma fl_value_24: "fl (7095280475433861 / 70368744177664) = 7095280475433861 / 70368744177664"
  using fl_small [of "7095280475433861 / 70368744177664" 46]
  by (simp add: round_half_even_def Let_def)

lemma fl_value_25: "fl (56178183226796275 / 70368744177664) = 3511136451674767 / 4398046511104"
  using fl_small [of "56178183226796275 / 70368744177664" 43]
  by (simp add: round_half_even_def Let_def)

lemma fl_value_26: "fl (7095280475433861 / 35184372088832) = 7095280475433861 / 35184372088832"
  using fl_small [of "7095280475433861 / 35184372088832" 45]
  by (simp add: round_half_even_def Let_def)

lemma fl_value_27: "fl 1000 = 1000"
  using fl_small [of "1000" 43]
  by (simp add: round_half_even_def Let_def)

lemma fl_value_28: "fl (28089091613398139 / 35184372088832) = 7022272903349535 / 8796093022208"
  using fl_small [of "28089091613398139 / 35184372088832" 43]
  by (simp add: round_half_even_def Let_def)

lemma fl_value_29: "fl (10083 / 50) = 7095280475433861 / 35184372088832"
  using fl_small [of "10083 / 50" 45]
  by (simp add: round_half_even_def Let_def)

lemma fl_value_30: "fl (39917 / 50) = 7022272903349535 / 8796093022208"
  using fl_small [of "39917 / 50" 43]
  by (simp add: round_half_even_def Let_def)

lemma fl_value_31: "fl 880 = 880"
  using fl_small [of "880" 43]
  by (simp add: round_half_even_def Let_def)

lemma fl_value_32: "fl 120 = 120"
  using fl_small [of "120" 46]
  by (simp add: round_half_even_def Let_def)

lemma fl_value_33: "fl 15 = 15"
  using fl_small [of "15" 49]
  by (simp add: round_half_even_def Let_def)

lemma fl_value_34: "fl 895 = 895"
  using fl_small [of "895" 43]
  by (simp add: round_half_even_def Let_def)

lemma fl_value_35: "fl 995 = 995"
  using fl_small [of "995" 43]
  by (simp add: round_half_even_def Let_def)

lemma fl_value_36: "fl 1005 = 1005"
  using fl_small [of "1005" 43]
  by (simp add: round_half_even_def Let_def)

lemma fl_value_37: "fl 5 = 5"
  using fl_small [of "5" 50]
  by (simp add: round_half_even_def Let_def)

lemma fl_value_38: "fl 50 = 50"
  using fl_small [of "50" 47]
  by (simp add: round_half_even_def Let_def)

lemma fl_value_39: "fl 5000 = 5000"
  using fl_small [of "5000" 40]
  by (simp add: round_half_even_def Let_def)

lemma fl_value_40: "fl (3602879701896397 / 18014398509481984) = 3602879701896397 / 18014398509481984"
  using fl_small [of "3602879701896397 / 18014398509481984" 55]
  by (simp add: round_half_even_def Let_def)

lemma fl_value_41: "fl (21617278211378381 / 18014398509481984) = 5404319552844595 / 4503599627370496"
  using fl_small [of "21617278211378381 / 18014398509481984" 52]
  by (simp add: round_half_even_def Let_def)

lemma fl_value_42: "fl (278997996915602216875 / 2305843009213693952) = 30975 / 256"
  using fl_small [of "278997996915602216875 / 2305843009213693952" 46]
  by (simp add: round_half_even_def Let_def)

lemma fl_value_43: "fl 121 = 121"
  using fl_small [of "121" 46]
  by (simp add: round_half_even_def Let_def)

lemma fl_value_44: "fl (19 / 16) = 19 / 16"
  using fl_small [of "19 / 16" 52]
  by (simp add: round_half_even_def Let_def)

lemma fl_value_45: "fl (68454714336031543 / 576460752303423488) = 8556839292003943 / 72057594037927936"
  using fl_small [of "68454714336031543 / 576460752303423488" 56]
  by (simp add: round_half_even_def Let_def)

lemma fl_value_46: "fl (80614433329931879 / 72057594037927936) = 2519201041560371 / 2251799813685248"
  using fl_small [of "80614433329931879 / 72057594037927936" 52]
  by (simp add: round_half_even_def Let_def)

lemma fl_value_47: "fl (62980026039009275 / 562949953421312) = 7872503254876159 / 70368744177664"
  using fl_small [of "62980026039009275 / 562949953421312" 46]
  by (simp add: round_half_even_def Let_def)

lemma fl_value_48: "fl (7872503254876159 / 70368744177664) = 7872503254876159 / 70368744177664"
  using fl_small [of "7872503254876159 / 70368744177664" 46]
  by (simp add: round_half_even_def Let_def)

lemma fl_value_49: "fl (11187 / 100) = 984018926394409 / 8796093022208"
  using fl_small [of "11187 / 100" 46]
  by (simp add: round_half_even_def Let_def)

lemmas fl_values =
  fl_zero fl_value_1 fl_value_2 fl_value_3 fl_value_4 fl_value_5
  fl_value_6 fl_value_7 fl_value_8 fl_value_9 fl_value_10 fl_value_11
  fl_value_12 fl_value_13 fl_value_14 fl_value_15 fl_value_16 fl_value_17
  fl_value_18 fl_value_19 fl_value_20 fl_value_21 fl_value_22 fl_value_23
  fl_value_24 fl_value_25 fl_value_26 fl_value_27 fl_value_28 fl_value_29
  fl_value_30 fl_value_31 fl_value_32 fl_value_33 fl_value_34 fl_value_35
  fl_value_36 fl_value_37 fl_value_38 fl_value_39 fl_value_40 fl_value_41
  fl_value_42 fl_value_43 fl_value_44 fl_value_45 fl_value_46 fl_value_47
  fl_value_48 fl_value_49

section \<open>The ledger of an account and its transaction log\<close>

text \<open>
  A sequence of calls of \<^verbatim>\<open>debit\<close> and \<^verbatim>\<open>credit\<close> on one account, each with its arguments and
  the clock reading its transaction gets.
\<close>

datatype account_op =
  Debit real string "string option" real
| Credit real string identity "string option" real

fun apply_op :: "EnergyAccount \<Rightarrow> account_op \<Rightarrow> EnergyAccount" where
  "apply_op a (Debit amt why mid now) = snd (debit a amt why mid now)"
| "apply_op a (Credit amt why from mid now) = credit a amt why from mid now"

definition run_ops :: "EnergyAccount \<Rightarrow> account_op list \<Rightarrow> EnergyAccount" where
  "run_ops a ops = foldl apply_op a ops"

text \<open>
  Replaying a transaction log, in the words of the specification: start from the initial
  balance with nothing earned and nothing spent, and book each transaction in order. A
  transaction whose \<^verbatim>\<open>to_node\<close> is the account's identity is a credit (\<^verbatim>\<open>credit\<close> writes
  \<^verbatim>\<open>to_node=self.node_id\<close>); any other is a debit (\<^verbatim>\<open>debit\<close> writes \<^verbatim>\<open>to_node="network"\<close>).
\<close>

definition replay_tx :: "identity \<Rightarrow> real \<times> real \<times> real \<Rightarrow> EnergyTransaction \<Rightarrow> real \<times> real \<times> real" where
  "replay_tx node st tx =
     (case st of (b, e, s) \<Rightarrow>
        if to_node tx = node then (fadd b (amount tx), fadd e (amount tx), s)
        else (fsub b (amount tx), e, fadd s (amount tx)))"

definition replay :: "identity \<Rightarrow> real \<Rightarrow> EnergyTransaction list \<Rightarrow> real \<times> real \<times> real" where
  "replay node initial txs = foldl (replay_tx node) (initial, 0, 0) txs"

text \<open>The ids \<^verbatim>\<open>tx_0\<close>, \<^verbatim>\<open>tx_1\<close>, ... of the first \<open>n\<close> transactions of an account.\<close>

definition tx_ids :: "nat \<Rightarrow> string list" where
  "tx_ids n = map (\<lambda>i. ''tx_'' @ str_nat i) [0..<n]"

lemma apply_op_node_id: "account_node_id (apply_op a op) = account_node_id a"
  by (cases op) (simp_all add: debit_def credit_def Let_def)

lemma apply_op_ids:
  "map transaction_id (transactions a) = tx_ids (length (transactions a)) \<Longrightarrow>
   map transaction_id (transactions (apply_op a op))
     = tx_ids (length (transactions (apply_op a op)))"
  by (cases op) (simp_all add: debit_def credit_def Let_def tx_ids_def)

lemma apply_op_replay:
  assumes "account_node_id a \<noteq> ''network''"
    and "replay (account_node_id a) b0 (transactions a) = (balance a, total_earned a, total_spent a)"
  shows "replay (account_node_id a) b0 (transactions (apply_op a op))
           = (balance (apply_op a op), total_earned (apply_op a op), total_spent (apply_op a op))"
  using assms
  by (cases op) (simp_all add: debit_def credit_def Let_def replay_def replay_tx_def)

lemma run_ops_snoc: "run_ops a (ops @ [op]) = apply_op (run_ops a ops) op"
  by (simp add: run_ops_def)

lemma run_ops_node_id: "account_node_id (run_ops a ops) = account_node_id a"
  by (induction ops rule: rev_induct) (simp_all add: run_ops_snoc apply_op_node_id, simp add: run_ops_def)

lemma run_ops_ids:
  "map transaction_id (transactions a) = tx_ids (length (transactions a)) \<Longrightarrow>
   map transaction_id (transactions (run_ops a ops))
     = tx_ids (length (transactions (run_ops a ops)))"
proof (induction ops rule: rev_induct)
  case Nil
  then show ?case by (simp add: run_ops_def)
next
  case (snoc op ops)
  then show ?case by (simp add: run_ops_snoc apply_op_ids)
qed

lemma run_ops_replay:
  assumes "account_node_id a \<noteq> ''network''"
    and "replay (account_node_id a) b0 (transactions a) = (balance a, total_earned a, total_spent a)"
  shows "replay (account_node_id a) b0 (transactions (run_ops a ops))
           = (balance (run_ops a ops), total_earned (run_ops a ops), total_spent (run_ops a ops))"
proof (induction ops rule: rev_induct)
  case Nil
  from assms(2) show ?case by (simp add: run_ops_def)
next
  case (snoc op ops)
  from assms(1) have "account_node_id (run_ops a ops) \<noteq> ''network''"
    by (simp add: run_ops_node_id)
  from apply_op_replay [OF this, of b0 op] snoc show ?case
    by (simp add: run_ops_snoc run_ops_node_id)
qed

text \<open>
  Claim C2, as amended. For every account created with an initial balance and every
  sequence of debit and credit calls on it: if the account's identity is not the string
  \<^verbatim>\<open>network\<close>, replaying its transaction log from the initial balance, with the float
  additions and subtractions of \<^verbatim>\<open>credit\<close> and \<^verbatim>\<open>debit\<close> in the order of the log, gives
  exactly its balance, total earned and total spent; and in every case the transaction ids
  are \<^verbatim>\<open>tx_0\<close>, \<^verbatim>\<open>tx_1\<close>, ... in the order of the log, the number of each one more than that
  of the one before.
\<close>

theorem ledger_replay:
  "(node \<noteq> ''network'' \<longrightarrow>
      replay node initial (transactions (run_ops (new_account node initial plugged mult) ops))
        = (balance (run_ops (new_account node initial plugged mult) ops),
           total_earned (run_ops (new_account node initial plugged mult) ops),
           total_spent (run_ops (new_account node initial plugged mult) ops))) \<and>
   map transaction_id (transactions (run_ops (new_account node initial plugged mult) ops))
     = tx_ids (length (transactions (run_ops (new_account node initial plugged mult) ops)))"
proof -
  let ?a = "new_account node initial plugged mult"
  have "replay node initial (transactions (run_ops ?a ops))
        = (balance (run_ops ?a ops), total_earned (run_ops ?a ops), total_spent (run_ops ?a ops))"
    if "node \<noteq> ''network''"
    using run_ops_replay [of ?a initial ops] that
    by (simp add: new_account_def replay_def)
  moreover have "map transaction_id (transactions (run_ops ?a ops))
     = tx_ids (length (transactions (run_ops ?a ops)))"
    by (rule run_ops_ids) (simp add: new_account_def tx_ids_def)
  ultimately show ?thesis by blast
qed

text \<open>
  Claim C2 as stated fails twice. For the account of a node named \<^verbatim>\<open>network\<close>, a debit of 5
  and a credit of 5 (from the default \<^verbatim>\<open>network\<close>) leave the same transaction log, and
  balances 995 and 1005; so no replay of the log gives the balance in both cases, and the
  replay above misses the first. And balance = initial + earned - spent fails in floats:
  after two debits of 100.83 from 1000.0 the balance is 798.3399999999999 (the float
  \<open>3511136451674767 / 2 ^ 42\<close>) while earned is 0.0 and spent 201.66, so that
  initial + earned - spent is 798.34 in float arithmetic, and differs from the balance in
  exact arithmetic as well.
\<close>

theorem ledger_replay_counterexample:
  "transactions (run_ops (new_account ''network'' 1000 False 1) [Debit 5 ''rebalance'' None 0])
     = transactions (run_ops (new_account ''network'' 1000 False 1)
         [Credit 5 ''rebalance'' ''network'' None 0]) \<and>
   balance (run_ops (new_account ''network'' 1000 False 1) [Debit 5 ''rebalance'' None 0]) = 995 \<and>
   balance (run_ops (new_account ''network'' 1000 False 1)
         [Credit 5 ''rebalance'' ''network'' None 0]) = 1005 \<and>
   replay ''network'' 1000
     (transactions (run_ops (new_account ''network'' 1000 False 1) [Debit 5 ''rebalance'' None 0]))
     \<noteq> (balance (run_ops (new_account ''network'' 1000 False 1) [Debit 5 ''rebalance'' None 0]),
         total_earned (run_ops (new_account ''network'' 1000 False 1) [Debit 5 ''rebalance'' None 0]),
         total_spent (run_ops (new_account ''network'' 1000 False 1) [Debit 5 ''rebalance'' None 0])) \<and>
   balance (run_ops (new_account ''A'' 1000 False 1)
       [Debit (fl (10083 / 100)) ''send'' (Some ''m1'') 1,
        Debit (fl (10083 / 100)) ''send'' (Some ''m2'') 2])
     = 3511136451674767 / 4398046511104 \<and>
   total_earned (run_ops (new_account ''A'' 1000 False 1)
       [Debit (fl (10083 / 100)) ''send'' (Some ''m1'') 1,
        Debit (fl (10083 / 100)) ''send'' (Some ''m2'') 2]) = 0 \<and>
   total_spent (run_ops (new_account ''A'' 1000 False 1)
       [Debit (fl (10083 / 100)) ''send'' (Some ''m1'') 1,
        Debit (fl (10083 / 100)) ''send'' (Some ''m2'') 2]) = fl (20166 / 100) \<and>
   fsub (fadd 1000 0) (fl (20166 / 100)) = fl (79834 / 100) \<and>
   fl (79834 / 100) \<noteq> 3511136451674767 / 4398046511104 \<and>
   1000 + 0 - fl (20166 / 100) \<noteq> (3511136451674767 / 4398046511104 :: real)"
proof -
  have n: "transactions (run_ops (new_account ''network'' 1000 False 1) [Debit 5 ''rebalance'' None 0])
     = transactions (run_ops (new_account ''network'' 1000 False 1)
         [Credit 5 ''rebalance'' ''network'' None 0])"
    "balance (run_ops (new_account ''network'' 1000 False 1) [Debit 5 ''rebalance'' None 0]) = 995"
    "balance (run_ops (new_account ''network'' 1000 False 1)
         [Credit 5 ''rebalance'' ''network'' None 0]) = 1005"
    "replay ''network'' 1000
     (transactions (run_ops (new_account ''network'' 1000 False 1) [Debit 5 ''rebalance'' None 0]))
     \<noteq> (balance (run_ops (new_account ''network'' 1000 False 1) [Debit 5 ''rebalance'' None 0]),
         total_earned (run_ops (new_account ''network'' 1000 False 1) [Debit 5 ''rebalance'' None 0]),
         total_spent (run_ops (new_account ''network'' 1000 False 1) [Debit 5 ''rebalance'' None 0]))"
    by (simp_all add: run_ops_def new_account_def debit_def credit_def can_afford_def Let_def
        replay_def replay_tx_def fadd_def fsub_def fl_values)
  let ?a2 = "run_ops (new_account ''A'' 1000 False 1)
       [Debit (fl (10083 / 100)) ''send'' (Some ''m1'') 1,
        Debit (fl (10083 / 100)) ''send'' (Some ''m2'') 2]"
  have a: "balance ?a2 = 3511136451674767 / 4398046511104" "total_earned ?a2 = 0"
    "total_spent ?a2 = fl (20166 / 100)"
    by (simp_all add: run_ops_def new_account_def debit_def can_afford_def Let_def
        fadd_def fsub_def fl_values)
  have f: "fsub (fadd 1000 0) (fl (20166 / 100)) = fl (79834 / 100)"
    "fl (79834 / 100) \<noteq> 3511136451674767 / 4398046511104"
    "1000 + 0 - fl (20166 / 100) \<noteq> (3511136451674767 / 4398046511104 :: real)"
    by (simp_all add: fadd_def fsub_def fl_values)
  from n a f show ?thesis by blast
qed

text \<open>
  The amended claim at the account of Bob, plugged in with multiplier 1.5: a send of 120,
  a relay credit of 10 (booked as 15) and a refused debit of 5000.
\<close>

theorem ledger_replay_witness:
  "''Bob'' \<noteq> ''network'' \<and>
   replay ''Bob'' 1000 (transactions (run_ops (new_account ''Bob'' 1000 True (3 / 2))
       [Debit 120 ''send'' (Some ''m1'') 1, Credit 10 ''relay'' ''Alice'' (Some ''m2'') 2,
        Debit 5000 ''send'' (Some ''m3'') 3]))
     = (895, 15, 120) \<and>
   balance (run_ops (new_account ''Bob'' 1000 True (3 / 2))
       [Debit 120 ''send'' (Some ''m1'') 1, Credit 10 ''relay'' ''Alice'' (Some ''m2'') 2,
        Debit 5000 ''send'' (Some ''m3'') 3]) = 895 \<and>
   map transaction_id (transactions (run_ops (new_account ''Bob'' 1000 True (3 / 2))
       [Debit 120 ''send'' (Some ''m1'') 1, Credit 10 ''relay'' ''Alice'' (Some ''m2'') 2,
        Debit 5000 ''send'' (Some ''m3'') 3])) = [''tx_0'', ''tx_1'']"
proof -
  let ?ops = "[Debit 120 ''send'' (Some ''m1'') 1, Credit 10 ''relay'' ''Alice'' (Some ''m2'') 2,
        Debit 5000 ''send'' (Some ''m3'') 3]"
  let ?a = "run_ops (new_account ''Bob'' 1000 True (3 / 2)) ?ops"
  have ne: "''Bob'' \<noteq> ''network''" by simp
  have b: "balance ?a = 895" and e: "total_earned ?a = 15" and s: "total_spent ?a = 120"
    and l: "length (transactions ?a) = 2"
    by (simp_all add: run_ops_def new_account_def debit_def credit_def can_afford_def Let_def
        fadd_def fsub_def fmul_def fl_values)
  have ids: "tx_ids 2 = [''tx_0'', ''tx_1'']"
    by (simp add: tx_ids_def upt_rec str_nat.simps)
  from ledger_replay [of "''Bob''" 1000 True "3 / 2" ?ops] ne
  show ?thesis
    unfolding b e s l ids by simp
qed

section \<open>Hops and time to live\<close>

text \<open>
  Claim C7, as amended. A text message has \<open>ttl + len(hops_taken) = 10\<close> when it is created
  and after any number of \<^verbatim>\<open>add_hop\<close> steps; an acknowledgement, created with TTL 5, has
  \<open>ttl + len(hops_taken) = 5\<close> throughout; and \<^verbatim>\<open>add_hop\<close> leaves the sum of any message as
  it is. So the sum never exceeds 10.
\<close>

theorem ttl_plus_hops:
  "ttl (header (foldl add_hop (create_text_message sender recipient text' prio uuid now) hops))
     + int (length (hops_taken
         (foldl add_hop (create_text_message sender recipient text' prio uuid now) hops))) = 10 \<and>
   ttl (header (foldl add_hop (create_ack original sender recipient uuid now) hops))
     + int (length (hops_taken
         (foldl add_hop (create_ack original sender recipient uuid now) hops))) = 5 \<and>
   ttl (header (add_hop m node)) + int (length (hops_taken (add_hop m node)))
     = ttl (header m) + int (length (hops_taken m))"
proof -
  have step: "ttl (header (add_hop m node)) + int (length (hops_taken (add_hop m node)))
     = ttl (header m) + int (length (hops_taken m))" for m node
    by (simp add: add_hop_def)
  have fold: "ttl (header (foldl add_hop m hops)) + int (length (hops_taken (foldl add_hop m hops)))
     = ttl (header m) + int (length (hops_taken m))" for m
  proof (induction hops rule: rev_induct)
    case Nil
    show ?case by simp
  next
    case (snoc h hs)
    then show ?case using step [of "foldl add_hop m hs" h] by simp
  qed
  show ?thesis
    using fold [of "create_text_message sender recipient text' prio uuid now"]
      fold [of "create_ack original sender recipient uuid now"] step [of m node]
    by (simp add: create_text_message_def create_ack_def)
qed

text \<open>
  Claim C7 as stated fails for an acknowledgement at its creation: the sum is 5, not 10.
\<close>

theorem ack_ttl_plus_hops_counterexample:
  "ttl (header (create_ack ''m1'' ''B'' ''A'' ''a1'' 0))
     + int (length (hops_taken (create_ack ''m1'' ''B'' ''A'' ''a1'' 0))) = 5 \<and>
   ttl (header (create_ack ''m1'' ''B'' ''A'' ''a1'' 0))
     + int (length (hops_taken (create_ack ''m1'' ''B'' ''A'' ''a1'' 0))) \<noteq> 10"
  by (simp add: create_ack_def)

section \<open>Sending: cost and energy\<close>

lemma scan_neighbors_route_nonempty:
  "scan_neighbors dest path ns visited queue = Inl r \<Longrightarrow> r \<noteq> []"
  by (induction ns arbitrary: visited queue) (auto split: if_splits)

lemma bfs_loop_route_nonempty: "bfs_loop g dest visited queue = Some r \<Longrightarrow> r \<noteq> []"
proof (induction g dest visited queue rule: bfs_loop.induct)
  case (1 g dest visited)
  then show ?case by simp
next
  case (2 g dest visited current path queue)
  show ?case
  proof (cases "scan_neighbors dest path (view_get g current) visited queue")
    case (Inl a)
    with "2.prems" show ?thesis
      by (auto dest: scan_neighbors_route_nonempty)
  next
    case (Inr vq)
    obtain V' Q' where vq: "vq = (V', Q')" by (cases vq)
    from "2.IH" [OF Inr vq [symmetric]] "2.prems" Inr vq show ?thesis by simp
  qed
qed

lemma find_route_nonempty: "find_route self dest g = Some r \<Longrightarrow> r \<noteq> []"
proof -
  assume a: "find_route self dest g = Some r"
  show ?thesis
  proof (cases "self = dest")
    case True
    with a show ?thesis by (auto simp: find_route_def)
  next
    case False
    with a have "bfs_loop g dest {self} [(self, [self])] = Some r"
      by (simp only: find_route_def split: if_splits) simp_all
    then show ?thesis by (rule bfs_loop_route_nonempty)
  qed
qed

text \<open>The payload size in kilobytes, as \<^verbatim>\<open>calculate_energy_cost\<close> computes it.\<close>

definition size_kb :: "(real \<Rightarrow> string) \<Rightarrow> Message \<Rightarrow> real" where
  "size_kb float_repr m = fdiv (real (get_size_bytes float_repr (payload m))) 1024"

lemma send_message_success:
  assumes "send_message fr n rcpt txt prio uuid now tnow = (Inr msg, n')"
  shows "can_afford (energy_account n)
           (calculate_energy_cost fr (create_text_message (node_id n) rcpt txt prio uuid now))"
    and "msg = add_hop ((create_text_message (node_id n) rcpt txt prio uuid now)
            \<lparr>energy_cost := calculate_energy_cost fr
                (create_text_message (node_id n) rcpt txt prio uuid now)\<rparr>) (node_id n)"
    and "energy_account n' = snd (debit (energy_account n)
            (calculate_energy_cost fr (create_text_message (node_id n) rcpt txt prio uuid now))
            ''send'' (Some uuid) tnow)"
  using assms
  by (auto simp: send_message_def Let_def create_text_message_def
      split: if_splits option.splits)

lemma send_message_refused:
  "\<not> can_afford (energy_account n)
       (calculate_energy_cost fr (create_text_message (node_id n) rcpt txt prio uuid now)) \<Longrightarrow>
   send_message fr n rcpt txt prio uuid now tnow = (Inl InsufficientEnergy, n)"
  by (simp add: send_message_def Let_def)

lemma send_message_no_route:
  "can_afford (energy_account n)
       (calculate_energy_cost fr (create_text_message (node_id n) rcpt txt prio uuid now)) \<Longrightarrow>
   find_route (router_node_id (router n)) rcpt (network_graph n) = None \<Longrightarrow>
   send_message fr n rcpt txt prio uuid now tnow = (Inl NoRoute, n)"
  by (simp add: send_message_def Let_def)

lemma send_message_sent:
  assumes "can_afford (energy_account n)
       (calculate_energy_cost fr (create_text_message (node_id n) rcpt txt prio uuid now))"
    and "find_route (router_node_id (router n)) rcpt (network_graph n) = Some route"
  shows "send_message fr n rcpt txt prio uuid now tnow =
     (Inr (add_hop ((create_text_message (node_id n) rcpt txt prio uuid now)
            \<lparr>energy_cost := calculate_energy_cost fr
                (create_text_message (node_id n) rcpt txt prio uuid now)\<rparr>) (node_id n)),
      n\<lparr>energy_account := snd (debit (energy_account n)
            (calculate_energy_cost fr (create_text_message (node_id n) rcpt txt prio uuid now))
            ''send'' (Some uuid) tnow),
        outgoing_queue := outgoing_queue n @
          [add_hop ((create_text_message (node_id n) rcpt txt prio uuid now)
            \<lparr>energy_cost := calculate_energy_cost fr
                (create_text_message (node_id n) rcpt txt prio uuid now)\<rparr>) (node_id n)],
        stats := (stats n)\<lparr>stat_messages_sent := stat_messages_sent (stats n) + 1\<rparr>\<rparr>)"
proof -
  from assms(2) have "route \<noteq> []" by (rule find_route_nonempty)
  with assms show ?thesis
    by (simp add: send_message_def Let_def create_text_message_def)
qed

subsection \<open>The nodes of the seed scenarios\<close>

text \<open>
  A node as \<^verbatim>\<open>MeshNode(NodeConfig(node_id=name, is_plugged_in=plugged,
  initial_energy=energy))\<close> builds it, after \<^verbatim>\<open>update_network_graph(view)\<close>. The payloads of
  the scenarios hold no float, so the closed theorems below pass \<open>\<lambda>r. ''0.0''\<close> for
  \<open>float_repr\<close>; it is never applied.
\<close>

definition view_AB :: network_view where
  "view_AB = [(''A'', [''B'']), (''B'', [''A''])]"

definition view_ABC :: network_view where
  "view_ABC = [(''A'', [''B'']), (''B'', [''A'', ''C'']), (''C'', [''B''])]"

definition scenario_node :: "identity \<Rightarrow> bool \<Rightarrow> real \<Rightarrow> network_view \<Rightarrow> MeshNode" where
  "scenario_node name plugged energy view =
     update_network_graph
       (MeshNode_init \<lparr>config_node_id = name, enable_relay = True,
          config_is_plugged_in = plugged, max_relay_queue = 100, initial_energy = energy,
          ble_range = 100, wifi_range = 200\<rparr>) view"

lemma scenario_node_simps:
  "node_id (scenario_node name plugged energy view) = name"
  "router_node_id (router (scenario_node name plugged energy view)) = name"
  "network_graph (scenario_node name plugged energy view) = view"
  "balance (energy_account (scenario_node name plugged energy view)) = energy"
  by (simp_all add: scenario_node_def update_network_graph_def MeshNode_init_def new_account_def)

lemma hello_size:
  "get_size_bytes fr \<lparr>content = ''hello'', content_type = ''text/plain'', metadata = [],
      attachments = []\<rparr> = 85"
  by (simp add: get_size_bytes_def payload_to_dict_def json_str_def json_escape_char_def)

lemma hello_cost:
  assumes "payload m = \<lparr>content = ''hello'', content_type = ''text/plain'', metadata = [],
      attachments = []\<rparr>" and "priority (header m) = NORMAL"
  shows "ttl (header m) = 10 \<Longrightarrow> calculate_energy_cost fr m = fl (10083 / 100)"
    and "ttl (header m) = 8 \<Longrightarrow> calculate_energy_cost fr m = fl (14116 / 100)"
  unfolding calculate_energy_cost_def assms hello_size Let_def
  by (simp_all add: round2_def round_half_even_def Let_def fadd_def fmul_def fdiv_def fl_values)

lemma hello_text_cost:
  "calculate_energy_cost fr (create_text_message s r ''hello'' NORMAL u t) = fl (10083 / 100)"
  by (rule hello_cost) (simp_all add: create_text_message_def)

lemma route_AB: "find_route ''A'' ''B'' view_AB = Some [''A'', ''B'']"
  by (simp add: find_route_def view_AB_def view_get_def)

lemma route_ABC: "find_route ''A'' ''C'' view_ABC = Some [''A'', ''B'', ''C'']"
  by (simp add: find_route_def view_ABC_def view_get_def)

lemma send_hello_AB:
  "send_message fr (scenario_node ''A'' False 1000 view) dest ''hello'' NORMAL ''m1'' 0 0
     = (Inr (add_hop ((create_text_message ''A'' dest ''hello'' NORMAL ''m1'' 0)
                \<lparr>energy_cost := fl (10083 / 100)\<rparr>) ''A''),
        (scenario_node ''A'' False 1000 view)
          \<lparr>energy_account := snd (debit (energy_account (scenario_node ''A'' False 1000 view))
                (fl (10083 / 100)) ''send'' (Some ''m1'') 0),
           outgoing_queue := outgoing_queue (scenario_node ''A'' False 1000 view) @
             [add_hop ((create_text_message ''A'' dest ''hello'' NORMAL ''m1'' 0)
                \<lparr>energy_cost := fl (10083 / 100)\<rparr>) ''A''],
           stats := (stats (scenario_node ''A'' False 1000 view))
              \<lparr>stat_messages_sent := stat_messages_sent (stats (scenario_node ''A'' False 1000 view)) + 1\<rparr>\<rparr>)"
  if "find_route ''A'' dest view = Some route"
proof -
  let ?n = "scenario_node ''A'' False 1000 view"
  have ca: "can_afford (energy_account ?n)
       (calculate_energy_cost fr (create_text_message (node_id ?n) dest ''hello'' NORMAL ''m1'' 0))"
    by (simp add: can_afford_def scenario_node_simps hello_text_cost fl_values)
  have r: "find_route (router_node_id (router ?n)) dest (network_graph ?n) = Some route"
    using that by (simp add: scenario_node_simps)
  show ?thesis
    using send_message_sent [OF ca r, of 0]
    by (simp add: scenario_node_simps hello_text_cost)
qed

lemma hello_sent_size:
  "size_kb fr (add_hop ((create_text_message ''A'' dest ''hello'' NORMAL ''m1'' 0)
                \<lparr>energy_cost := c\<rparr>) ''A'') = 85 / 1024"
  by (simp add: size_kb_def add_hop_def create_text_message_def hello_size fdiv_def fl_values)

text \<open>
  \<^verbatim>\<open>Message.calculate_energy_cost\<close> is the market's \<^verbatim>\<open>calculate_send_cost\<close> at the size of the
  payload, the value of the priority and the hop count \<open>10 - ttl\<close>.
\<close>

lemma calculate_energy_cost_market:
  "calculate_send_cost 100 (size_kb fr m) (priority_value (priority (header m)))
       (10 - ttl (header m)) = Some (calculate_energy_cost fr m)"
  by (cases "priority (header m)")
    (simp_all add: calculate_send_cost_def calculate_energy_cost_def size_kb_def Let_def)

subsection \<open>The amount debited by a send\<close>

text \<open>
  Claim C3, as amended. For every successful send, the amount debited from the sender (the
  amount of the transaction the send appends; the balance goes down and the total spent
  goes up by it, in float arithmetic) is the cost recorded in the message, and that cost
  is the market's \<^verbatim>\<open>calculate_send_cost\<close>, that is
  \<open>100 * (1 + 0.1 * size_kb) * priority_factor * (1 + 0.2 * expected_hops)\<close> in float
  arithmetic, rounded to two decimals by \<^verbatim>\<open>round(.., 2)\<close>, for the size of the payload's JSON
  text in bytes over 1024, the priority of the send and a hop count from 0 to 10.
\<close>

theorem send_cost_debited:
  "send_message fr n rcpt txt prio uuid now tnow = (Inr msg, n') \<longrightarrow>
     balance (energy_account n') = fsub (balance (energy_account n)) (energy_cost msg) \<and>
     total_spent (energy_account n') = fadd (total_spent (energy_account n)) (energy_cost msg) \<and>
     amount (last (transactions (energy_account n'))) = energy_cost msg \<and>
     (\<exists>expected_hops. 0 \<le> expected_hops \<and> expected_hops \<le> 10 \<and>
        calculate_send_cost 100 (size_kb fr msg) (priority_value prio) expected_hops
          = Some (energy_cost msg))"
proof
  assume a: "send_message fr n rcpt txt prio uuid now tnow = (Inr msg, n')"
  let ?m0 = "create_text_message (node_id n) rcpt txt prio uuid now"
  note s = send_message_success [OF a]
  have c: "energy_cost msg = calculate_energy_cost fr ?m0"
    unfolding s(2) by (simp add: add_hop_def)
  have k: "size_kb fr msg = size_kb fr ?m0"
    unfolding s(2) by (simp add: add_hop_def size_kb_def)
  have b: "balance (energy_account n') = fsub (balance (energy_account n)) (energy_cost msg)"
    and t: "total_spent (energy_account n')
              = fadd (total_spent (energy_account n)) (energy_cost msg)"
    and l: "amount (last (transactions (energy_account n'))) = energy_cost msg"
    unfolding s(3) c using s(1) by (simp_all add: debit_def)
  have "calculate_send_cost 100 (size_kb fr ?m0) (priority_value (priority (header ?m0)))
          (10 - ttl (header ?m0)) = Some (calculate_energy_cost fr ?m0)"
    by (rule calculate_energy_cost_market)
  then have "calculate_send_cost 100 (size_kb fr msg) (priority_value prio) 0
          = Some (energy_cost msg)"
    unfolding k c by (simp add: create_text_message_def)
  then have "\<exists>expected_hops. 0 \<le> expected_hops \<and> expected_hops \<le> 10 \<and>
        calculate_send_cost 100 (size_kb fr msg) (priority_value prio) expected_hops
          = Some (energy_cost msg)"
    by (intro exI [of _ 0]) simp
  with b t l show "balance (energy_account n') = fsub (balance (energy_account n)) (energy_cost msg) \<and>
     total_spent (energy_account n') = fadd (total_spent (energy_account n)) (energy_cost msg) \<and>
     amount (last (transactions (energy_account n'))) = energy_cost msg \<and>
     (\<exists>expected_hops. 0 \<le> expected_hops \<and> expected_hops \<le> 10 \<and>
        calculate_send_cost 100 (size_kb fr msg) (priority_value prio) expected_hops
          = Some (energy_cost msg))"
    by blast
qed

text \<open>
  The amended claim in the direct-neighbour scenario: A, with 1000, sends "hello" (85
  bytes) to its neighbour B at normal priority; the send succeeds, 100.83 is debited and
  recorded, and 899.17 is left.
\<close>

theorem send_cost_debited_witness:
  "send_message (\<lambda>r. ''0.0'') (scenario_node ''A'' False 1000 view_AB) ''B'' ''hello'' NORMAL ''m1'' 0 0
     = (Inr (projr (fst (send_message (\<lambda>r. ''0.0'') (scenario_node ''A'' False 1000 view_AB)
                ''B'' ''hello'' NORMAL ''m1'' 0 0))),
        snd (send_message (\<lambda>r. ''0.0'') (scenario_node ''A'' False 1000 view_AB)
                ''B'' ''hello'' NORMAL ''m1'' 0 0)) \<and>
   energy_cost (projr (fst (send_message (\<lambda>r. ''0.0'') (scenario_node ''A'' False 1000 view_AB)
                ''B'' ''hello'' NORMAL ''m1'' 0 0))) = fl (10083 / 100) \<and>
   balance (energy_account (snd (send_message (\<lambda>r. ''0.0'')
          (scenario_node ''A'' False 1000 view_AB) ''B'' ''hello'' NORMAL ''m1'' 0 0)))
     = fl (89917 / 100) \<and>
   total_spent (energy_account (snd (send_message (\<lambda>r. ''0.0'')
          (scenario_node ''A'' False 1000 view_AB) ''B'' ''hello'' NORMAL ''m1'' 0 0)))
     = fl (10083 / 100) \<and>
   amount (last (transactions (energy_account (snd (send_message (\<lambda>r. ''0.0'')
          (scenario_node ''A'' False 1000 view_AB) ''B'' ''hello'' NORMAL ''m1'' 0 0)))))
     = fl (10083 / 100) \<and>
   (\<exists>expected_hops. 0 \<le> expected_hops \<and> expected_hops \<le> 10 \<and>
      calculate_send_cost 100 (85 / 1024) 1 expected_hops = Some (fl (10083 / 100)))"
proof -
  let ?fr = "\<lambda>r::real. ''0.0''"
  let ?n = "scenario_node ''A'' False 1000 view_AB"
  let ?s = "send_message ?fr ?n ''B'' ''hello'' NORMAL ''m1'' 0 0"
  have s: "?s = (Inr (projr (fst ?s)), snd ?s)"
    unfolding send_hello_AB [OF route_AB] by simp
  have c: "energy_cost (projr (fst ?s)) = fl (10083 / 100)"
    unfolding send_hello_AB [OF route_AB] by (simp add: add_hop_def)
  have k: "size_kb ?fr (projr (fst ?s)) = 85 / 1024"
    unfolding send_hello_AB [OF route_AB] by (simp add: hello_sent_size)
  have b0: "balance (energy_account ?n) = 1000" and t0: "total_spent (energy_account ?n) = 0"
    by (simp_all add: scenario_node_def update_network_graph_def MeshNode_init_def
        new_account_def)
  have v: "fsub 1000 (fl (10083 / 100)) = fl (89917 / 100)"
    "fadd 0 (fl (10083 / 100)) = fl (10083 / 100)"
    by (simp_all add: fsub_def fadd_def fl_values)
  from send_cost_debited [of ?fr ?n "''B''" "''hello''" NORMAL "''m1''" 0 0 "projr (fst ?s)" "snd ?s"] s
  have "balance (energy_account (snd ?s))
          = fsub (balance (energy_account ?n)) (energy_cost (projr (fst ?s))) \<and>
     total_spent (energy_account (snd ?s))
          = fadd (total_spent (energy_account ?n)) (energy_cost (projr (fst ?s))) \<and>
     amount (last (transactions (energy_account (snd ?s)))) = energy_cost (projr (fst ?s)) \<and>
     (\<exists>expected_hops. 0 \<le> expected_hops \<and> expected_hops \<le> 10 \<and>
        calculate_send_cost 100 (size_kb ?fr (projr (fst ?s))) (priority_value NORMAL)
          expected_hops = Some (energy_cost (projr (fst ?s))))"
    by blast
  then have "balance (energy_account (snd ?s)) = fl (89917 / 100) \<and>
     total_spent (energy_account (snd ?s)) = fl (10083 / 100) \<and>
     amount (last (transactions (energy_account (snd ?s)))) = fl (10083 / 100) \<and>
     (\<exists>expected_hops. 0 \<le> expected_hops \<and> expected_hops \<le> 10 \<and>
        calculate_send_cost 100 (85 / 1024) 1 expected_hops = Some (fl (10083 / 100)))"
    unfolding c k b0 t0 v by simp
  with s c show ?thesis by blast
qed

text \<open>
  Claim C3 as stated fails in the direct-neighbour scenario: the debit is 100.83 and the
  balance left 899.17, not 120 and 880. The formula of the claim does not give 120 for
  this message and one hop either: with the size factor of the 85 bytes it gives 121.0.
\<close>

theorem send_cost_direct_neighbor_counterexample:
  "fst (send_message (\<lambda>r. ''0.0'') (scenario_node ''A'' False 1000 view_AB) ''B'' ''hello'' NORMAL
          ''m1'' 0 0)
     = Inr (add_hop ((create_text_message ''A'' ''B'' ''hello'' NORMAL ''m1'' 0)
                \<lparr>energy_cost := fl (10083 / 100)\<rparr>) ''A'') \<and>
   balance (energy_account (scenario_node ''A'' False 1000 view_AB)) = 1000 \<and>
   balance (energy_account (snd (send_message (\<lambda>r. ''0.0'')
          (scenario_node ''A'' False 1000 view_AB) ''B'' ''hello'' NORMAL ''m1'' 0 0)))
     = fl (89917 / 100) \<and>
   amount (last (transactions (energy_account (snd (send_message (\<lambda>r. ''0.0'')
          (scenario_node ''A'' False 1000 view_AB) ''B'' ''hello'' NORMAL ''m1'' 0 0)))))
     = fl (10083 / 100) \<and>
   fl (10083 / 100) \<noteq> 120 \<and> fl (89917 / 100) \<noteq> 880 \<and>
   calculate_send_cost 100 (85 / 1024) 1 1 = Some 121"
proof -
  let ?fr = "\<lambda>r::real. ''0.0''"
  let ?n = "scenario_node ''A'' False 1000 view_AB"
  let ?s = "send_message ?fr ?n ''B'' ''hello'' NORMAL ''m1'' 0 0"
  have "fst ?s = Inr (add_hop ((create_text_message ''A'' ''B'' ''hello'' NORMAL ''m1'' 0)
                \<lparr>energy_cost := fl (10083 / 100)\<rparr>) ''A'')"
    unfolding send_hello_AB [OF route_AB] by simp
  moreover have "balance (energy_account ?n) = 1000"
    by (simp add: scenario_node_simps)
  moreover have "balance (energy_account (snd ?s)) = fl (89917 / 100)"
    "amount (last (transactions (energy_account (snd ?s)))) = fl (10083 / 100)"
    unfolding send_hello_AB [OF route_AB]
    by (simp_all add: scenario_node_simps debit_def can_afford_def fsub_def fl_values)
  moreover have "fl (10083 / 100) \<noteq> 120" "fl (89917 / 100) \<noteq> 880"
    by (simp_all add: fl_values)
  moreover have "calculate_send_cost 100 (85 / 1024) 1 1 = Some 121"
    by (simp add: calculate_send_cost_def round2_def round_half_even_def Let_def
        fadd_def fmul_def fl_values)
  ultimately show ?thesis by blast
qed

text \<open>
  A payload of 1216 bytes at normal priority and TTL 10: in exact arithmetic the cost
  before rounding is 111.875, halfway between two cents; the float product of
  \<^verbatim>\<open>calculate_energy_cost\<close> is 111.87499999999999, and \<^verbatim>\<open>round(.., 2)\<close> gives 111.87. A text
  of 1136 letters has such a payload.
\<close>

lemma cost_of_1216_bytes:
  assumes "get_size_bytes fr (payload m) = 1216" and "priority (header m) = NORMAL"
    and "ttl (header m) = 10"
  shows "calculate_energy_cost fr m = fl (11187 / 100)"
  unfolding calculate_energy_cost_def assms Let_def
  by (simp add: round2_def round_half_even_def Let_def fadd_def fmul_def fdiv_def fl_values)

lemma plain_text_size:
  "get_size_bytes fr \<lparr>content = replicate k CHR ''a'', content_type = ''text/plain'',
      metadata = [], attachments = []\<rparr> = 80 + k"
proof -
  have "concat (map json_escape_char (replicate k CHR ''a'')) = replicate k CHR ''a''"
    by (induction k) (simp_all add: json_escape_char_def)
  then show ?thesis
    by (simp add: get_size_bytes_def payload_to_dict_def json_str_def json_escape_char_def)
qed

lemma long_text_cost:
  "calculate_energy_cost fr (create_text_message s r (replicate 1136 CHR ''a'') NORMAL u t)
     = fl (11187 / 100)"
  by (rule cost_of_1216_bytes) (simp_all add: create_text_message_def plain_text_size)

subsection \<open>A balance below the cost, a balance equal to the cost\<close>

text \<open>
  Claim C9, as amended. A sender whose balance is strictly below the cost of the message
  is refused for insufficient energy and the whole node, its ledger included, is as
  before. A sender whose balance equals the cost and whose view has a route to the
  recipient sends, and its balance is then 0; with no route it is refused for that, and
  the node is as before.
\<close>

theorem send_energy_boundary:
  "(balance (energy_account n)
      < calculate_energy_cost fr (create_text_message (node_id n) rcpt txt prio uuid now) \<longrightarrow>
      send_message fr n rcpt txt prio uuid now tnow = (Inl InsufficientEnergy, n)) \<and>
   (balance (energy_account n)
      = calculate_energy_cost fr (create_text_message (node_id n) rcpt txt prio uuid now) \<longrightarrow>
    find_route (router_node_id (router n)) rcpt (network_graph n) \<noteq> None \<longrightarrow>
      (\<exists>msg. fst (send_message fr n rcpt txt prio uuid now tnow) = Inr msg) \<and>
      balance (energy_account (snd (send_message fr n rcpt txt prio uuid now tnow))) = 0) \<and>
   (balance (energy_account n)
      = calculate_energy_cost fr (create_text_message (node_id n) rcpt txt prio uuid now) \<longrightarrow>
    find_route (router_node_id (router n)) rcpt (network_graph n) = None \<longrightarrow>
      send_message fr n rcpt txt prio uuid now tnow = (Inl NoRoute, n))"
proof -
  let ?c = "calculate_energy_cost fr (create_text_message (node_id n) rcpt txt prio uuid now)"
  have a: "send_message fr n rcpt txt prio uuid now tnow = (Inl InsufficientEnergy, n)"
    if "balance (energy_account n) < ?c"
    using that by (intro send_message_refused) (simp add: can_afford_def)
  have b: "(\<exists>msg. fst (send_message fr n rcpt txt prio uuid now tnow) = Inr msg) \<and>
      balance (energy_account (snd (send_message fr n rcpt txt prio uuid now tnow))) = 0"
    if eq: "balance (energy_account n) = ?c"
      and r: "find_route (router_node_id (router n)) rcpt (network_graph n) \<noteq> None"
  proof -
    from r obtain route where
      route: "find_route (router_node_id (router n)) rcpt (network_graph n) = Some route"
      by blast
    from eq have ca: "can_afford (energy_account n) ?c"
      by (simp add: can_afford_def)
    show ?thesis
      unfolding send_message_sent [OF ca route]
      using eq ca by (simp add: debit_def fsub_def fl_zero)
  qed
  have c: "send_message fr n rcpt txt prio uuid now tnow = (Inl NoRoute, n)"
    if "balance (energy_account n) = ?c"
      and "find_route (router_node_id (router n)) rcpt (network_graph n) = None"
    using that by (intro send_message_no_route) (simp_all add: can_afford_def)
  from a b c show ?thesis by blast
qed

text \<open>
  The amended claim at A with neighbour B: with balance 50 the send of "hello" (cost
  100.83) is refused and nothing changes; with balance 100.83 it succeeds and leaves 0.
\<close>

theorem send_energy_boundary_witness:
  "balance (energy_account (scenario_node ''A'' False 50 view_AB))
     < calculate_energy_cost (\<lambda>r. ''0.0'')
         (create_text_message (node_id (scenario_node ''A'' False 50 view_AB))
            ''B'' ''hello'' NORMAL ''m1'' 0) \<and>
   send_message (\<lambda>r. ''0.0'') (scenario_node ''A'' False 50 view_AB) ''B'' ''hello'' NORMAL ''m1'' 0 0
     = (Inl InsufficientEnergy, scenario_node ''A'' False 50 view_AB) \<and>
   balance (energy_account (scenario_node ''A'' False (fl (10083 / 100)) view_AB))
     = calculate_energy_cost (\<lambda>r. ''0.0'')
         (create_text_message (node_id (scenario_node ''A'' False (fl (10083 / 100)) view_AB))
            ''B'' ''hello'' NORMAL ''m1'' 0) \<and>
   find_route (router_node_id (router (scenario_node ''A'' False (fl (10083 / 100)) view_AB))) ''B''
      (network_graph (scenario_node ''A'' False (fl (10083 / 100)) view_AB)) = Some [''A'', ''B''] \<and>
   (\<exists>msg. fst (send_message (\<lambda>r. ''0.0'') (scenario_node ''A'' False (fl (10083 / 100)) view_AB)
              ''B'' ''hello'' NORMAL ''m1'' 0 0) = Inr msg) \<and>
   balance (energy_account (snd (send_message (\<lambda>r. ''0.0'')
      (scenario_node ''A'' False (fl (10083 / 100)) view_AB) ''B'' ''hello'' NORMAL ''m1'' 0 0))) = 0"
proof -
  let ?fr = "\<lambda>r::real. ''0.0''"
  let ?poor = "scenario_node ''A'' False 50 view_AB"
  let ?even = "scenario_node ''A'' False (fl (10083 / 100)) view_AB"
  have p: "balance (energy_account ?poor)
     < calculate_energy_cost ?fr (create_text_message (node_id ?poor) ''B'' ''hello'' NORMAL ''m1'' 0)"
    by (simp add: scenario_node_simps hello_text_cost fl_values)
  have e: "balance (energy_account ?even)
     = calculate_energy_cost ?fr (create_text_message (node_id ?even) ''B'' ''hello'' NORMAL ''m1'' 0)"
    by (simp add: scenario_node_simps hello_text_cost fl_values)
  have r: "find_route (router_node_id (router ?even)) ''B'' (network_graph ?even)
     = Some [''A'', ''B'']"
    by (simp add: scenario_node_simps route_AB)
  from send_energy_boundary [of ?poor ?fr "''B''" "''hello''" NORMAL "''m1''" 0 0] p
  have 1: "send_message ?fr ?poor ''B'' ''hello'' NORMAL ''m1'' 0 0 = (Inl InsufficientEnergy, ?poor)"
    by blast
  from send_energy_boundary [of ?even ?fr "''B''" "''hello''" NORMAL "''m1''" 0 0] e r
  have 2: "(\<exists>msg. fst (send_message ?fr ?even ''B'' ''hello'' NORMAL ''m1'' 0 0) = Inr msg) \<and>
      balance (energy_account (snd (send_message ?fr ?even ''B'' ''hello'' NORMAL ''m1'' 0 0))) = 0"
    by simp
  from p e r 1 2 show ?thesis by blast
qed

text \<open>
  Claim C9 as stated fails for a sender whose balance equals the cost and whose view is
  empty: the send is refused, for want of a route.
\<close>

theorem send_exact_balance_no_route_counterexample:
  "balance (energy_account (scenario_node ''A'' False (fl (10083 / 100)) []))
     = calculate_energy_cost (\<lambda>r. ''0.0'')
         (create_text_message (node_id (scenario_node ''A'' False (fl (10083 / 100)) []))
            ''B'' ''hello'' NORMAL ''m1'' 0) \<and>
   send_message (\<lambda>r. ''0.0'') (scenario_node ''A'' False (fl (10083 / 100)) []) ''B'' ''hello'' NORMAL
       ''m1'' 0 0
     = (Inl NoRoute, scenario_node ''A'' False (fl (10083 / 100)) [])"
proof -
  let ?fr = "\<lambda>r::real. ''0.0''"
  let ?n = "scenario_node ''A'' False (fl (10083 / 100)) []"
  have e: "balance (energy_account ?n)
     = calculate_energy_cost ?fr (create_text_message (node_id ?n) ''B'' ''hello'' NORMAL ''m1'' 0)"
    by (simp add: scenario_node_simps hello_text_cost fl_values)
  have "find_route (router_node_id (router ?n)) ''B'' (network_graph ?n) = None"
    by (simp add: scenario_node_simps find_route_def)
  with e have "send_message ?fr ?n ''B'' ''hello'' NORMAL ''m1'' 0 0 = (Inl NoRoute, ?n)"
    by (intro send_message_no_route) (simp_all add: can_afford_def)
  with e show ?thesis by blast
qed

subsection \<open>The reward of a relay\<close>

lemma receive_message_relayed:
  assumes "message_id (header msg) \<notin> seen_message_ids n"
    and "recipient_id (header msg) \<noteq> node_id n"
    and "enable_relay (config n)"
    and "should_relay msg (node_id n)"
    and "int (length (relay_queue n)) < max_relay_queue (config n)"
  shows "energy_account (snd (receive_message fr n msg uuid now tnow))
     = credit (energy_account n) (get_relay_reward fr (add_hop msg (node_id n))) ''relay''
         (sender_id (header msg)) (Some (message_id (header msg))) tnow"
  using assms
  by (simp add: receive_message_def Let_def add_hop_def)

text \<open>The message A sends to C in the three-node scenarios, as \<^verbatim>\<open>send_message\<close> returns it.\<close>

definition sent_hello :: Message where
  "sent_hello = add_hop ((create_text_message ''A'' ''C'' ''hello'' NORMAL ''m1'' 0)
                \<lparr>energy_cost := fl (10083 / 100)\<rparr>) ''A''"

lemma relay_hello:
  "balance (energy_account (snd (receive_message fr (scenario_node ''B'' plugged 1000 view_ABC)
       sent_hello ''a1'' 1 1))) = fl (101412 / 100)"
  "total_earned (energy_account (snd (receive_message fr (scenario_node ''B'' plugged 1000 view_ABC)
       sent_hello ''a1'' 1 1))) = fl (1412 / 100)"
  "amount (last (transactions (energy_account (snd (receive_message fr
       (scenario_node ''B'' plugged 1000 view_ABC) sent_hello ''a1'' 1 1))))) = fl (1412 / 100)"
proof -
  let ?n = "scenario_node ''B'' plugged 1000 view_ABC"
  have c: "calculate_energy_cost fr (add_hop sent_hello ''B'') = fl (14116 / 100)"
    by (rule hello_cost) (simp_all add: sent_hello_def add_hop_def create_text_message_def)
  have r: "get_relay_reward fr (add_hop sent_hello ''B'') = fl (1412 / 100)"
    unfolding get_relay_reward_def c
    by (simp add: round2_def round_half_even_def Let_def fmul_def fl_values)
  have n: "node_id ?n = ''B''" by (simp add: scenario_node_simps)
  have e: "energy_account (snd (receive_message fr ?n sent_hello ''a1'' 1 1))
     = credit (energy_account ?n) (get_relay_reward fr (add_hop sent_hello (node_id ?n))) ''relay''
         (sender_id (header sent_hello)) (Some (message_id (header sent_hello))) 1"
    by (rule receive_message_relayed)
      (simp_all add: scenario_node_def update_network_graph_def MeshNode_init_def sent_hello_def
        add_hop_def create_text_message_def should_relay_def is_expired_def)
  show "balance (energy_account (snd (receive_message fr ?n sent_hello ''a1'' 1 1)))
          = fl (101412 / 100)"
    "total_earned (energy_account (snd (receive_message fr ?n sent_hello ''a1'' 1 1)))
          = fl (1412 / 100)"
    "amount (last (transactions (energy_account (snd (receive_message fr ?n sent_hello
         ''a1'' 1 1))))) = fl (1412 / 100)"
    unfolding e n r
    by (simp_all add: credit_def scenario_node_def update_network_graph_def MeshNode_init_def
        new_account_def Let_def fadd_def fmul_def fl_values)
qed

text \<open>
  Claim C4 at the plugged-in relay scenario (view A - B - C, A sends "hello" to C, B
  relays): the send cost is 100.83, and B is credited 14.12 whether it is plugged in or
  not. The claim gives a plugged-in B 1.5 times 10.083. The account that \<^verbatim>\<open>MeshNode.__init__\<close>
  builds keeps the default \<^verbatim>\<open>relay_multiplier\<close> 1.0 (\<^verbatim>\<open>EnergyMarket.create_account\<close> sets 1.5),
  and the reward is a tenth of the cost computed anew at the relay, with two hops counted.
\<close>

theorem plugged_in_relay_credit_not_scaled:
  "fst (send_message (\<lambda>r. ''0.0'') (scenario_node ''A'' False 1000 view_ABC) ''C'' ''hello'' NORMAL
          ''m1'' 0 0) = Inr sent_hello \<and>
   energy_cost sent_hello = fl (10083 / 100) \<and>
   balance (energy_account (scenario_node ''B'' True 1000 view_ABC)) = 1000 \<and>
   balance (energy_account (scenario_node ''B'' False 1000 view_ABC)) = 1000 \<and>
   balance (energy_account (snd (receive_message (\<lambda>r. ''0.0'')
       (scenario_node ''B'' True 1000 view_ABC) sent_hello ''a1'' 1 1))) = fl (101412 / 100) \<and>
   balance (energy_account (snd (receive_message (\<lambda>r. ''0.0'')
       (scenario_node ''B'' False 1000 view_ABC) sent_hello ''a1'' 1 1))) = fl (101412 / 100) \<and>
   amount (last (transactions (energy_account (snd (receive_message (\<lambda>r. ''0.0'')
       (scenario_node ''B'' True 1000 view_ABC) sent_hello ''a1'' 1 1))))) = fl (1412 / 100) \<and>
   amount (last (transactions (energy_account (snd (receive_message (\<lambda>r. ''0.0'')
       (scenario_node ''B'' False 1000 view_ABC) sent_hello ''a1'' 1 1))))) = fl (1412 / 100) \<and>
   fl (1412 / 100) \<noteq> fmul (fmul (energy_cost sent_hello) (fl (1 / 10))) 1.5 \<and>
   fl (1412 / 100) \<noteq> fmul (fl (1412 / 100)) 1.5 \<and>
   relay_multiplier (energy_account (scenario_node ''B'' True 1000 view_ABC)) = 1 \<and>
   relay_multiplier (create_account ''B'' 1000 True) = 1.5"
proof -
  have "fst (send_message (\<lambda>r. ''0.0'') (scenario_node ''A'' False 1000 view_ABC) ''C'' ''hello''
          NORMAL ''m1'' 0 0) = Inr sent_hello"
    unfolding send_hello_AB [OF route_ABC] by (simp add: sent_hello_def)
  moreover have c: "energy_cost sent_hello = fl (10083 / 100)"
    by (simp add: sent_hello_def add_hop_def)
  moreover have "balance (energy_account (scenario_node ''B'' True 1000 view_ABC)) = 1000"
    "balance (energy_account (scenario_node ''B'' False 1000 view_ABC)) = 1000"
    by (simp_all add: scenario_node_simps)
  moreover have "fl (1412 / 100) \<noteq> fmul (fmul (energy_cost sent_hello) (fl (1 / 10))) 1.5"
    "fl (1412 / 100) \<noteq> fmul (fl (1412 / 100)) 1.5"
    unfolding c by (simp_all add: fmul_def fl_values)
  moreover have "relay_multiplier (energy_account (scenario_node ''B'' True 1000 view_ABC)) = 1"
    by (simp add: scenario_node_def update_network_graph_def MeshNode_init_def new_account_def)
  moreover have "relay_multiplier (create_account ''B'' 1000 True) = 1.5"
    by (simp add: create_account_def new_account_def)
  ultimately show ?thesis
    using relay_hello [of "\<lambda>r. ''0.0''"] by blast
qed

section \<open>Receiving: the seen-set and acknowledgements\<close>

text \<open>
  What can happen to a node between two arrivals of a message: it sends, it receives, its
  relay queue is processed, its neighbours or its view are updated.
\<close>

datatype node_event =
  EvSend identity string MessagePriority string real real
| EvReceive Message string real real
| EvTick
| EvNeighbors "identity set"
| EvGraph network_view

fun node_step :: "(real \<Rightarrow> string) \<Rightarrow> MeshNode \<Rightarrow> node_event \<Rightarrow> MeshNode" where
  "node_step fr n (EvSend rcpt txt prio uuid now tnow) =
     snd (send_message fr n rcpt txt prio uuid now tnow)"
| "node_step fr n (EvReceive msg uuid now tnow) = snd (receive_message fr n msg uuid now tnow)"
| "node_step fr n EvTick = snd (process_relay_queue n)"
| "node_step fr n (EvNeighbors ns) = update_neighbors n ns"
| "node_step fr n (EvGraph g) = update_network_graph n g"

definition run_events :: "(real \<Rightarrow> string) \<Rightarrow> MeshNode \<Rightarrow> node_event list \<Rightarrow> MeshNode" where
  "run_events fr n evs = foldl (node_step fr) n evs"

lemma drop_message_simps:
  "seen_message_ids (drop_message n) = seen_message_ids n"
  "outgoing_queue (drop_message n) = outgoing_queue n"
  "relay_queue (drop_message n) = relay_queue n"
  "received_messages (drop_message n) = received_messages n"
  "energy_account (drop_message n) = energy_account n"
  "router (drop_message n) = router n"
  "network_graph (drop_message n) = network_graph n"
  by (simp_all add: drop_message_def)

lemma send_message_seen:
  "seen_message_ids (snd (send_message fr n rcpt txt prio uuid now tnow)) = seen_message_ids n"
  by (simp add: send_message_def Let_def split: option.splits)

lemma receive_message_seen:
  "seen_message_ids (snd (receive_message fr n msg uuid now tnow))
     = insert (message_id (header msg)) (seen_message_ids n)"
  by (auto simp: receive_message_def Let_def drop_message_simps)

lemma relay_pass_seen:
  "seen_message_ids (snd (relay_pass ms (fwd, n))) = seen_message_ids n"
proof (induction ms arbitrary: fwd n)
  case Nil
  show ?case by simp
next
  case (Cons msg rest)
  show ?case
    by (simp add: Cons.IH drop_message_simps split: option.splits)
qed

lemma node_step_seen: "seen_message_ids n \<subseteq> seen_message_ids (node_step fr n ev)"
  by (cases ev)
    (auto simp: send_message_seen receive_message_seen relay_pass_seen process_relay_queue_def
      update_neighbors_def update_network_graph_def)

lemma run_events_seen: "seen_message_ids n \<subseteq> seen_message_ids (run_events fr n evs)"
proof (induction evs rule: rev_induct)
  case Nil
  show ?case by (simp add: run_events_def)
next
  case (snoc ev evs)
  have "run_events fr n (evs @ [ev]) = node_step fr (run_events fr n evs) ev"
    by (simp add: run_events_def)
  with snoc node_step_seen [of "run_events fr n evs" fr ev] show ?case by auto
qed

lemma receive_message_duplicate:
  "message_id (header msg) \<in> seen_message_ids n \<Longrightarrow>
   receive_message fr n msg uuid now tnow = (False, drop_message n)"
  by (simp add: receive_message_def)

text \<open>
  Claim C10. Whatever \<^verbatim>\<open>receive_message\<close> decides about a message, the message id is in the
  node's seen-set afterwards; and after any further events at the node, the arrival of a
  message with the same id is dropped (the call returns \<^verbatim>\<open>False\<close>) and leaves the outgoing
  queue, the relay queue, the received messages, the energy account and the seen-set as
  they were.
\<close>

theorem seen_message_dropped_later:
  "message_id (header m) \<in> seen_message_ids (snd (receive_message fr n m uuid now tnow)) \<and>
   (message_id (header m') = message_id (header m) \<longrightarrow>
      fst (receive_message fr (run_events fr (snd (receive_message fr n m uuid now tnow)) evs)
             m' uuid' now' tnow') = False \<and>
      outgoing_queue (snd (receive_message fr
             (run_events fr (snd (receive_message fr n m uuid now tnow)) evs) m' uuid' now' tnow'))
        = outgoing_queue (run_events fr (snd (receive_message fr n m uuid now tnow)) evs) \<and>
      relay_queue (snd (receive_message fr
             (run_events fr (snd (receive_message fr n m uuid now tnow)) evs) m' uuid' now' tnow'))
        = relay_queue (run_events fr (snd (receive_message fr n m uuid now tnow)) evs) \<and>
      received_messages (snd (receive_message fr
             (run_events fr (snd (receive_message fr n m uuid now tnow)) evs) m' uuid' now' tnow'))
        = received_messages (run_events fr (snd (receive_message fr n m uuid now tnow)) evs) \<and>
      energy_account (snd (receive_message fr
             (run_events fr (snd (receive_message fr n m uuid now tnow)) evs) m' uuid' now' tnow'))
        = energy_account (run_events fr (snd (receive_message fr n m uuid now tnow)) evs) \<and>
      seen_message_ids (snd (receive_message fr
             (run_events fr (snd (receive_message fr n m uuid now tnow)) evs) m' uuid' now' tnow'))
        = seen_message_ids (run_events fr (snd (receive_message fr n m uuid now tnow)) evs))"
proof -
  let ?n1 = "snd (receive_message fr n m uuid now tnow)"
  let ?n2 = "run_events fr ?n1 evs"
  have s1: "message_id (header m) \<in> seen_message_ids ?n1"
    by (simp add: receive_message_seen)
  with run_events_seen [of ?n1 fr evs] have s2: "message_id (header m) \<in> seen_message_ids ?n2"
    by blast
  have "receive_message fr ?n2 m' uuid' now' tnow' = (False, drop_message ?n2)"
    if "message_id (header m') = message_id (header m)"
    using that s2 by (intro receive_message_duplicate) simp
  with s1 show ?thesis
    by (simp add: drop_message_simps)
qed

text \<open>
  The claim at relay B: it relays A's message, processes its relay queue and sends a
  message of its own; a second copy of A's message, arriving by another path, is dropped.
\<close>

theorem seen_message_dropped_later_witness:
  "message_id (header (sent_hello\<lparr>hops_taken := [''A'', ''C'']\<rparr>)) = message_id (header sent_hello) \<and>
   fst (receive_message (\<lambda>r. ''0.0'') (scenario_node ''B'' False 1000 view_ABC) sent_hello ''a1'' 1 1)
     = True \<and>
   ''m1'' \<in> seen_message_ids (snd (receive_message (\<lambda>r. ''0.0'')
        (scenario_node ''B'' False 1000 view_ABC) sent_hello ''a1'' 1 1)) \<and>
   fst (receive_message (\<lambda>r. ''0.0'')
          (run_events (\<lambda>r. ''0.0'')
             (snd (receive_message (\<lambda>r. ''0.0'') (scenario_node ''B'' False 1000 view_ABC)
                  sent_hello ''a1'' 1 1))
             [EvTick, EvSend ''A'' ''hi'' NORMAL ''m2'' 2 2])
          (sent_hello\<lparr>hops_taken := [''A'', ''C'']\<rparr>) ''a3'' 3 3) = False \<and>
   energy_account (snd (receive_message (\<lambda>r. ''0.0'')
          (run_events (\<lambda>r. ''0.0'')
             (snd (receive_message (\<lambda>r. ''0.0'') (scenario_node ''B'' False 1000 view_ABC)
                  sent_hello ''a1'' 1 1))
             [EvTick, EvSend ''A'' ''hi'' NORMAL ''m2'' 2 2])
          (sent_hello\<lparr>hops_taken := [''A'', ''C'']\<rparr>) ''a3'' 3 3))
     = energy_account (run_events (\<lambda>r. ''0.0'')
             (snd (receive_message (\<lambda>r. ''0.0'') (scenario_node ''B'' False 1000 view_ABC)
                  sent_hello ''a1'' 1 1))
             [EvTick, EvSend ''A'' ''hi'' NORMAL ''m2'' 2 2])"
proof -
  let ?fr = "\<lambda>r::real. ''0.0''"
  let ?m' = "sent_hello\<lparr>hops_taken := [''A'', ''C'']\<rparr>"
  have e: "message_id (header ?m') = message_id (header sent_hello)"
    by simp
  have i: "message_id (header sent_hello) = ''m1''"
    by (simp add: sent_hello_def add_hop_def create_text_message_def)
  have t: "fst (receive_message ?fr (scenario_node ''B'' False 1000 view_ABC) sent_hello ''a1'' 1 1)
     = True"
    by (simp add: receive_message_def Let_def scenario_node_def update_network_graph_def
        MeshNode_init_def sent_hello_def add_hop_def create_text_message_def should_relay_def
        is_expired_def)
  from seen_message_dropped_later [of sent_hello ?fr "scenario_node ''B'' False 1000 view_ABC"
      "''a1''" 1 1 ?m' "[EvTick, EvSend ''A'' ''hi'' NORMAL ''m2'' 2 2]" "''a3''" 3 3] e i t
  show ?thesis by simp
qed

text \<open>
  Claim C8, as amended. Receiving a message enqueues an acknowledgement exactly when the
  message id is not in the seen-set and the message is addressed to this node, whatever
  the type of the message (an acknowledgement included); the acknowledgement has type
  ack, priority high, TTL 5, the id of the received message as its content, and goes to
  its sender. A message whose id is in the seen-set, or that is addressed to another node,
  adds nothing to the outgoing queue.
\<close>

theorem receive_enqueues_ack:
  "outgoing_queue (snd (receive_message fr n msg uuid now tnow))
     = (if message_id (header msg) \<notin> seen_message_ids n \<and> recipient_id (header msg) = node_id n
        then outgoing_queue n @
               [create_ack (message_id (header msg)) (node_id n) (sender_id (header msg)) uuid now]
        else outgoing_queue n) \<and>
   \<not> (message_id (header msg) \<in> seen_message_ids n \<and>
        fst (receive_message fr n msg uuid now tnow)) \<and>
   message_type (header (create_ack (message_id (header msg)) (node_id n)
        (sender_id (header msg)) uuid now)) = ACK \<and>
   priority (header (create_ack (message_id (header msg)) (node_id n)
        (sender_id (header msg)) uuid now)) = HIGH \<and>
   ttl (header (create_ack (message_id (header msg)) (node_id n)
        (sender_id (header msg)) uuid now)) = 5 \<and>
   content (payload (create_ack (message_id (header msg)) (node_id n)
        (sender_id (header msg)) uuid now)) = message_id (header msg) \<and>
   recipient_id (header (create_ack (message_id (header msg)) (node_id n)
        (sender_id (header msg)) uuid now)) = sender_id (header msg)"
  by (simp add: receive_message_def Let_def drop_message_simps create_ack_def)

text \<open>
  Claim C8 as stated fails: node A receives an acknowledgement addressed to it and
  enqueues an acknowledgement of that acknowledgement.
\<close>

theorem ack_of_ack_counterexample:
  "message_type (header (create_ack ''m1'' ''B'' ''A'' ''a1'' 1)) = ACK \<and>
   recipient_id (header (create_ack ''m1'' ''B'' ''A'' ''a1'' 1))
     = node_id (scenario_node ''A'' False 1000 view_AB) \<and>
   outgoing_queue (scenario_node ''A'' False 1000 view_AB) = [] \<and>
   outgoing_queue (snd (receive_message (\<lambda>r. ''0.0'') (scenario_node ''A'' False 1000 view_AB)
       (create_ack ''m1'' ''B'' ''A'' ''a1'' 1) ''a2'' 2 2))
     = [create_ack ''a1'' ''A'' ''B'' ''a2'' 2] \<and>
   message_type (header (create_ack ''a1'' ''A'' ''B'' ''a2'' 2)) = ACK"
  by (simp add: receive_message_def Let_def create_ack_def scenario_node_def
      update_network_graph_def MeshNode_init_def)

section \<open>The wire format of a message (core/message.py)\<close>

text \<open>
  \<^verbatim>\<open>to_wire_format\<close> builds a dict and writes it with \<^verbatim>\<open>json.dumps\<close>; \<^verbatim>\<open>from_wire_format\<close>
  reads the bytes with \<^verbatim>\<open>json.loads\<close> and takes the dict apart. The bytes on the wire are
  modelled by the JSON document they hold; the library's writing and reading of a document
  are taken to be inverse to each other. A reader is total here: \<open>None\<close> stands for any
  exception (a missing key, an enum value that does not exist) and for a document whose
  field has a type the dataclass does not declare.
\<close>

fun message_type_value :: "MessageType \<Rightarrow> string" where
  "message_type_value TEXT = ''text''"
| "message_type_value VOICE = ''voice''"
| "message_type_value FILE = ''file''"
| "message_type_value ACK = ''ack''"
| "message_type_value ROUTE_REQUEST = ''route_request''"
| "message_type_value ROUTE_REPLY = ''route_reply''"
| "message_type_value ROUTE_ERROR = ''route_error''"
| "message_type_value HEARTBEAT = ''heartbeat''"

definition message_type_of_value :: "string \<Rightarrow> MessageType option" where
  "message_type_of_value s =
     map_of (map (\<lambda>t. (message_type_value t, t))
       [TEXT, VOICE, FILE, ACK, ROUTE_REQUEST, ROUTE_REPLY, ROUTE_ERROR, HEARTBEAT]) s"

definition priority_of_value :: "int \<Rightarrow> MessagePriority option" where
  "priority_of_value i =
     (if i = 0 then Some LOW else if i = 1 then Some NORMAL else if i = 2 then Some HIGH
      else if i = 3 then Some URGENT else None)"

text \<open>\<^verbatim>\<open>d[key]\<close> and \<^verbatim>\<open>d.get(key, default)\<close> on a JSON object, and the typed reading of a value.\<close>

fun json_item :: "json \<Rightarrow> string \<Rightarrow> json option" where
  "json_item (JObj kvs) k = map_of kvs k"
| "json_item _ k = None"

fun json_get :: "json \<Rightarrow> string \<Rightarrow> json \<Rightarrow> json option" where
  "json_get (JObj kvs) k d = (case map_of kvs k of None \<Rightarrow> Some d | Some v \<Rightarrow> Some v)"
| "json_get _ k d = None"

fun as_str :: "json \<Rightarrow> string option" where
  "as_str (JStr s) = Some s"
| "as_str _ = None"

fun as_int :: "json \<Rightarrow> int option" where
  "as_int (JInt i) = Some i"
| "as_int _ = None"

fun as_float :: "json \<Rightarrow> real option" where
  "as_float (JFloat r) = Some r"
| "as_float (JInt i) = Some (of_int i)"
| "as_float _ = None"

fun as_bool :: "json \<Rightarrow> bool option" where
  "as_bool (JBool b) = Some b"
| "as_bool _ = None"

fun as_dict :: "json \<Rightarrow> (string \<times> json) list option" where
  "as_dict (JObj kvs) = Some kvs"
| "as_dict _ = None"

fun as_list :: "json \<Rightarrow> json list option" where
  "as_list (JArr xs) = Some xs"
| "as_list _ = None"

fun as_optional_str :: "json \<Rightarrow> string option option" where
  "as_optional_str JNull = Some None"
| "as_optional_str (JStr s) = Some (Some s)"
| "as_optional_str _ = None"

definition header_to_dict :: "MessageHeader \<Rightarrow> json" where
  "header_to_dict h =
     JObj [(''message_id'', JStr (message_id h)),
           (''sender_id'', JStr (sender_id h)),
           (''recipient_id'', JStr (recipient_id h)),
           (''timestamp'', JFloat (timestamp h)),
           (''message_type'', JStr (message_type_value (message_type h))),
           (''priority'', JInt (priority_value (priority h))),
           (''ttl'', JInt (ttl h)),
           (''sequence_number'', JInt (sequence_number h))]"

definition header_from_dict :: "json \<Rightarrow> MessageHeader option" where
  "header_from_dict d = do {
     mid \<leftarrow> json_item d ''message_id'' \<bind> as_str;
     sender \<leftarrow> json_item d ''sender_id'' \<bind> as_str;
     recipient \<leftarrow> json_item d ''recipient_id'' \<bind> as_str;
     ts \<leftarrow> json_item d ''timestamp'' \<bind> as_float;
     ty \<leftarrow> json_item d ''message_type'' \<bind> as_str \<bind> message_type_of_value;
     pr \<leftarrow> json_item d ''priority'' \<bind> as_int \<bind> priority_of_value;
     t \<leftarrow> json_item d ''ttl'' \<bind> as_int;
     sq \<leftarrow> json_item d ''sequence_number'' \<bind> as_int;
     Some \<lparr>message_id = mid, sender_id = sender, recipient_id = recipient, timestamp = ts,
           message_type = ty, priority = pr, ttl = t, sequence_number = sq\<rparr>
   }"

definition payload_from_dict :: "json \<Rightarrow> MessagePayload option" where
  "payload_from_dict d = do {
     c \<leftarrow> json_item d ''content'' \<bind> as_str;
     ct \<leftarrow> json_get d ''content_type'' (JStr ''text/plain'') \<bind> as_str;
     md \<leftarrow> json_get d ''metadata'' (JObj []) \<bind> as_dict;
     atts \<leftarrow> json_get d ''attachments'' (JArr []) \<bind> as_list \<bind> (\<lambda>xs. those (map as_dict xs));
     Some \<lparr>content = c, content_type = ct, metadata = md, attachments = atts\<rparr>
   }"

definition to_wire_format :: "Message \<Rightarrow> json" where
  "to_wire_format m =
     JObj [(''header'', header_to_dict (header m)),
           (''payload'', payload_to_dict (payload m)),
           (''hops_taken'', JArr (map JStr (hops_taken m))),
           (''energy_cost'', JFloat (energy_cost m)),
           (''is_encrypted'', JBool (is_encrypted m)),
           (''signature'', (case signature m of None \<Rightarrow> JNull | Some s \<Rightarrow> JStr s))]"

definition from_wire_format :: "json \<Rightarrow> Message option" where
  "from_wire_format d = do {
     h \<leftarrow> json_item d ''header'' \<bind> header_from_dict;
     p \<leftarrow> json_item d ''payload'' \<bind> payload_from_dict;
     hops \<leftarrow> json_get d ''hops_taken'' (JArr []) \<bind> as_list \<bind> (\<lambda>xs. those (map as_str xs));
     cost \<leftarrow> json_get d ''energy_cost'' (JFloat 0) \<bind> as_float;
     enc \<leftarrow> json_get d ''is_encrypted'' (JBool False) \<bind> as_bool;
     sig \<leftarrow> json_get d ''signature'' JNull \<bind> as_optional_str;
     Some \<lparr>header = h, payload = p, onion_layers = [], hops_taken = hops, energy_cost = cost,
           is_encrypted = enc, signature = sig\<rparr>
   }"

lemma message_type_roundtrip: "message_type_of_value (message_type_value t) = Some t"
  by (cases t) (simp_all add: message_type_of_value_def)

lemma priority_roundtrip: "priority_of_value (priority_value p) = Some p"
  by (cases p) (simp_all add: priority_of_value_def)

lemma those_as_str: "those (map (as_str \<circ> JStr) xs) = Some xs"
  by (induction xs) simp_all

lemma those_as_dict: "those (map (as_dict \<circ> JObj) xs) = Some xs"
  by (induction xs) simp_all

lemma header_roundtrip: "header_from_dict (header_to_dict h) = Some h"
  by (simp add: header_from_dict_def header_to_dict_def message_type_roundtrip priority_roundtrip)

lemma payload_roundtrip: "payload_from_dict (payload_to_dict p) = Some p"
  by (simp add: payload_from_dict_def payload_to_dict_def those_as_dict)

lemma wire_roundtrip: "from_wire_format (to_wire_format m) = Some (m\<lparr>onion_layers := []\<rparr>)"
  by (cases "signature m")
    (simp_all add: from_wire_format_def to_wire_format_def header_roundtrip payload_roundtrip
      those_as_str)

definition onion_message :: Message where
  "onion_message =
     (create_text_message ''A'' ''D'' ''secret'' NORMAL ''m1'' 0)
       \<lparr>onion_layers := [\<lparr>next_hop = ''B'', layer_encrypted = False, layer_data = None\<rparr>]\<rparr>"

text \<open>
  Claim C5 at a message with one onion layer: decoding its wire encoding gives the
  message with no onion layers, which is not the message; and the encoded dict has the
  fields header, payload, hops_taken, energy_cost, is_encrypted, signature, with no
  onion_layers among them. (By \<open>wire_roundtrip\<close> every message comes back with its onion
  layers dropped and is otherwise unchanged.)
\<close>

theorem wire_format_drops_onion_layers:
  "from_wire_format (to_wire_format onion_message) = Some (onion_message\<lparr>onion_layers := []\<rparr>) \<and>
   from_wire_format (to_wire_format onion_message) \<noteq> Some onion_message \<and>
   map_option (map fst) (as_dict (to_wire_format onion_message))
     = Some [''header'', ''payload'', ''hops_taken'', ''energy_cost'', ''is_encrypted'', ''signature'']"
proof -
  have "onion_layers onion_message \<noteq> onion_layers (onion_message\<lparr>onion_layers := []\<rparr>)"
    by (simp add: onion_message_def)
  then have "onion_message\<lparr>onion_layers := []\<rparr> \<noteq> onion_message"
    by metis
  moreover have "map_option (map fst) (as_dict (to_wire_format onion_message))
     = Some [''header'', ''payload'', ''hops_taken'', ''energy_cost'', ''is_encrypted'', ''signature'']"
    by (simp add: to_wire_format_def)
  ultimately show ?thesis
    by (simp add: wire_roundtrip)
qed

section \<open>Onion routing (crypto/onion.py)\<close>

text \<open>
  Python \<^verbatim>\<open>bytes\<close> are strings here (a \<open>char\<close> is a byte). The calls into the
  \<^verbatim>\<open>cryptography\<close> and \<^verbatim>\<open>json\<close> libraries are not code of the repository; they are the fields
  of a record that every function below takes as its first argument:
  \<^item> \<open>x25519_exchange our_private their_public\<close>, what \<^verbatim>\<open>KeyManager.perform_dh\<close> returns;
  \<^item> \<open>hkdf_sha256 salt info secret\<close>, the 64 bytes \<^verbatim>\<open>HKDF(SHA256, 64, salt, info).derive\<close> gives;
  \<^item> \<open>aes_cbc_encrypt key iv data\<close> and \<open>aes_cbc_decrypt key iv data\<close> (\<open>None\<close>: it raises);
  \<^item> \<open>hmac_sha256 key data\<close>;
  \<^item> \<open>json_encode\<close>, which is \<^verbatim>\<open>json.dumps(..).encode('utf-8')\<close>, and \<open>json_decode\<close>, which is
    \<^verbatim>\<open>json.loads(..decode('utf-8'))\<close> (\<open>None\<close>: it raises).
\<close>

record crypto_library =
  x25519_exchange :: "string \<Rightarrow> string \<Rightarrow> string"
  hkdf_sha256 :: "string \<Rightarrow> string \<Rightarrow> string \<Rightarrow> string"
  aes_cbc_encrypt :: "string \<Rightarrow> string \<Rightarrow> string \<Rightarrow> string"
  aes_cbc_decrypt :: "string \<Rightarrow> string \<Rightarrow> string \<Rightarrow> string option"
  hmac_sha256 :: "string \<Rightarrow> string \<Rightarrow> string"
  json_encode :: "json \<Rightarrow> string"
  json_decode :: "string \<Rightarrow> json option"

text \<open>The two private keys of a \<^verbatim>\<open>KeyManager\<close> that onion routing reads.\<close>

record KeyManager =
  identity_private_key :: string
  ephemeral_private_key :: string

record OnionLayer =
  encrypted_data :: string
  iv :: string
  mac :: string

record OnionPacket =
  layers :: "OnionLayer list"
  final_payload :: string

datatype onion_error = OnionKeyError string | OnionValueError | OnionTypeError

definition perform_dh :: "crypto_library \<Rightarrow> string \<Rightarrow> string \<Rightarrow> string" where
  "perform_dh lib our_private their_public = x25519_exchange lib our_private their_public"

definition derive_layer_keys :: "crypto_library \<Rightarrow> string \<Rightarrow> identity \<Rightarrow> string \<times> string" where
  "derive_layer_keys lib shared_secret hop_id =
     (let key_material = hkdf_sha256 lib hop_id ''meshphone_onion_layer'' shared_secret
      in (take 32 key_material, drop 32 key_material))"

text \<open>The padding that \<^verbatim>\<open>_encrypt_layer\<close> adds and \<^verbatim>\<open>_decrypt_layer\<close> removes.\<close>

definition add_padding :: "string \<Rightarrow> string" where
  "add_padding plaintext =
     (let padding_length = 16 - length plaintext mod 16
      in plaintext @ replicate padding_length (char_of padding_length))"

text \<open>
  \<^verbatim>\<open>padded_plaintext[:-padding_length]\<close> with \<^verbatim>\<open>padding_length = padded_plaintext[-1]\<close>, on a
  non-empty argument: the slice \<^verbatim>\<open>[:-0]\<close> is empty.
\<close>

definition remove_padding :: "string \<Rightarrow> string" where
  "remove_padding padded_plaintext =
     (let padding_length = (of_char (last padded_plaintext) :: nat)
      in if padding_length = 0 then []
         else take (length padded_plaintext - padding_length) padded_plaintext)"

text \<open>\<^verbatim>\<open>_encrypt_layer\<close>; the 16 bytes of \<^verbatim>\<open>os.urandom\<close> are the argument \<open>random_iv\<close>.\<close>

definition encrypt_layer ::
  "crypto_library \<Rightarrow> string \<Rightarrow> string \<Rightarrow> string \<Rightarrow> string \<Rightarrow> OnionLayer" where
  "encrypt_layer lib random_iv plaintext cipher_key mac_key =
     (let ciphertext = aes_cbc_encrypt lib cipher_key random_iv (add_padding plaintext)
      in \<lparr>encrypted_data = ciphertext, iv = random_iv,
          mac = hmac_sha256 lib mac_key (random_iv @ ciphertext)\<rparr>)"

text \<open>
  \<^verbatim>\<open>_decrypt_layer\<close>; \<open>None\<close> when it raises: the MAC does not verify, the decryption
  fails, or the decrypted data is empty.
\<close>

definition decrypt_layer ::
  "crypto_library \<Rightarrow> OnionLayer \<Rightarrow> string \<Rightarrow> string \<Rightarrow> string option" where
  "decrypt_layer lib layer cipher_key mac_key =
     (if hmac_sha256 lib mac_key (iv layer @ encrypted_data layer) \<noteq> mac layer then None
      else (case aes_cbc_decrypt lib cipher_key (iv layer) (encrypted_data layer) of
              None \<Rightarrow> None
            | Some padded_plaintext \<Rightarrow>
                if padded_plaintext = [] then None
                else Some (remove_padding padded_plaintext)))"

definition routing_info :: "identity \<Rightarrow> nat \<Rightarrow> json" where
  "routing_info hop hop_number =
     JObj [(''next_hop'', JStr hop), (''hop_number'', JInt (int hop_number))]"

text \<open>
  The loop of \<^verbatim>\<open>create_onion\<close> from index \<open>i\<close> on, over the relays that remain;
  \<open>urandom i\<close> is what \<^verbatim>\<open>os.urandom(16)\<close> returns in round \<open>i\<close>. A relay with no key in
  \<^verbatim>\<open>route_keys\<close> raises \<^verbatim>\<open>KeyError\<close>.
\<close>

fun make_layers ::
  "crypto_library \<Rightarrow> KeyManager \<Rightarrow> (nat \<Rightarrow> string) \<Rightarrow> identity list \<Rightarrow>
   (identity \<rightharpoonup> string) \<Rightarrow> identity list \<Rightarrow> nat \<Rightarrow> identity list \<Rightarrow>
   onion_error + OnionLayer list" where
  "make_layers lib km urandom route route_keys relay_nodes i [] = Inr []"
| "make_layers lib km urandom route route_keys relay_nodes i (relay_id # rest) =
     (let hop = (if i < length relay_nodes - 1 then relay_nodes ! (i + 1) else last route);
          routing_json = json_encode lib (routing_info hop (i + 1))
      in case route_keys relay_id of
           None \<Rightarrow> Inl (OnionKeyError relay_id)
         | Some relay_public_key \<Rightarrow>
             (let shared_secret = perform_dh lib (ephemeral_private_key km) relay_public_key;
                  keys = derive_layer_keys lib shared_secret relay_id;
                  layer = encrypt_layer lib (urandom i) routing_json (fst keys) (snd keys)
              in case make_layers lib km urandom route route_keys relay_nodes (i + 1) rest of
                   Inl e \<Rightarrow> Inl e
                 | Inr ls \<Rightarrow> Inr (layer # ls)))"

definition create_onion ::
  "crypto_library \<Rightarrow> KeyManager \<Rightarrow> (nat \<Rightarrow> string) \<Rightarrow> identity list \<Rightarrow>
   (identity \<rightharpoonup> string) \<Rightarrow> string \<Rightarrow> onion_error + OnionPacket" where
  "create_onion lib km urandom route route_keys payload' =
     (let relay_nodes = butlast (tl route)
      in case make_layers lib km urandom route route_keys relay_nodes 0 relay_nodes of
           Inl e \<Rightarrow> Inl e
         | Inr ls \<Rightarrow> Inr \<lparr>layers = ls, final_payload = payload'\<rparr>)"

text \<open>
  \<^verbatim>\<open>peel_layer\<close>, called on the router of the relay whose \<^verbatim>\<open>KeyManager\<close> is \<open>km\<close>. Whatever
  \<^verbatim>\<open>_decrypt_layer\<close> or \<^verbatim>\<open>json.loads\<close> raises becomes the \<^verbatim>\<open>ValueError\<close>; reading
  \<^verbatim>\<open>routing_info["next_hop"]\<close> raises \<^verbatim>\<open>KeyError\<close> on a dict without the key and \<^verbatim>\<open>TypeError\<close> on a
  value that is no dict. The next hop is an identity here, so a record whose next hop is
  not a string is refused as well.
\<close>

definition peel_layer ::
  "crypto_library \<Rightarrow> KeyManager \<Rightarrow> OnionPacket \<Rightarrow> identity \<Rightarrow> string \<Rightarrow>
   onion_error + (identity option \<times> OnionPacket)" where
  "peel_layer lib km packet my_node_id sender_public_key =
     (case layers packet of
        [] \<Rightarrow> Inr (None, packet)
      | our_layer # remaining_layers \<Rightarrow>
          (let shared_secret = perform_dh lib (identity_private_key km) sender_public_key;
               keys = derive_layer_keys lib shared_secret my_node_id
           in case Option.bind (decrypt_layer lib our_layer (fst keys) (snd keys))
                     (json_decode lib) of
                None \<Rightarrow> Inl OnionValueError
              | Some info \<Rightarrow>
                  (case json_item info ''next_hop'' of
                     None \<Rightarrow> (case info of JObj kvs \<Rightarrow> Inl (OnionKeyError ''next_hop'')
                                           | _ \<Rightarrow> Inl OnionTypeError)
                   | Some (JStr hop) \<Rightarrow>
                       Inr (Some hop,
                            \<lparr>layers = remaining_layers, final_payload = final_payload packet\<rparr>)
                   | Some _ \<Rightarrow> Inl OnionTypeError)))"

definition extract_payload :: "OnionPacket \<Rightarrow> onion_error + string" where
  "extract_payload packet =
     (if layers packet \<noteq> [] then Inl OnionValueError else Inr (final_payload packet))"

text \<open>
  The relays of a route peel in route order, each with its own key manager and identity,
  all with the sender's public key: the next hops they learn, and the packet that is left.
\<close>

fun peel_along ::
  "crypto_library \<Rightarrow> (identity \<Rightarrow> KeyManager) \<Rightarrow> string \<Rightarrow> identity list \<Rightarrow> OnionPacket \<Rightarrow>
   onion_error + (identity option list \<times> OnionPacket)" where
  "peel_along lib kms sender_public_key [] packet = Inr ([], packet)"
| "peel_along lib kms sender_public_key (relay # rest) packet =
     (case peel_layer lib (kms relay) packet relay sender_public_key of
        Inl e \<Rightarrow> Inl e
      | Inr (hop, packet') \<Rightarrow>
          (case peel_along lib kms sender_public_key rest packet' of
             Inl e \<Rightarrow> Inl e
           | Inr (hops, packet'') \<Rightarrow> Inr (hop # hops, packet'')))"

lemma remove_add_padding: "remove_padding (add_padding p) = p"
proof -
  define n where "n = 16 - length p mod 16"
  have n: "0 < n" "n \<le> 16"
    unfolding n_def by simp_all
  then have c: "(of_char (char_of n) :: nat) = n"
    by simp
  have l: "last (p @ replicate n (char_of n)) = char_of n"
    using n by (cases n) simp_all
  show ?thesis
    unfolding add_padding_def remove_padding_def Let_def n_def [symmetric] l c
    using n by simp
qed

lemma add_padding_nonempty: "add_padding p \<noteq> []"
  by (simp add: add_padding_def Let_def)

lemma add_padding_blocks: "length (add_padding p) mod 16 = 0"
proof -
  have "(length p + (16 - length p mod 16)) mod 16 = 0"
    by presburger
  then show ?thesis
    by (simp add: add_padding_def Let_def)
qed

lemma decrypt_encrypt_layer:
  assumes "\<forall>k v p. length p mod 16 = 0 \<longrightarrow>
             aes_cbc_decrypt lib k v (aes_cbc_encrypt lib k v p) = Some p"
  shows "decrypt_layer lib (encrypt_layer lib v p ck mk) ck mk = Some p"
  using assms add_padding_blocks [of p]
  by (simp add: decrypt_layer_def encrypt_layer_def Let_def add_padding_nonempty
      remove_add_padding)

lemma peel_layer_own:
  assumes aes: "\<forall>k v p. length p mod 16 = 0 \<longrightarrow>
             aes_cbc_decrypt lib k v (aes_cbc_encrypt lib k v p) = Some p"
    and json: "\<forall>h n. json_decode lib (json_encode lib (routing_info h n)) = Some (routing_info h n)"
    and dh: "x25519_exchange lib eph pk = x25519_exchange lib (identity_private_key km') spk"
  shows "peel_layer lib km'
           \<lparr>layers = encrypt_layer lib v (json_encode lib (routing_info hop n))
                        (fst (derive_layer_keys lib (perform_dh lib eph pk) r))
                        (snd (derive_layer_keys lib (perform_dh lib eph pk) r)) # ls,
            final_payload = fp\<rparr> r spk
         = Inr (Some hop, \<lparr>layers = ls, final_payload = fp\<rparr>)"
proof -
  have k: "perform_dh lib (identity_private_key km') spk = perform_dh lib eph pk"
    using dh by (simp add: perform_dh_def)
  from json have j: "json_decode lib (json_encode lib (routing_info hop n))
                      = Some (routing_info hop n)"
    by blast
  have item: "json_item (routing_info hop n) ''next_hop'' = Some (JStr hop)"
    by (simp add: routing_info_def)
  show ?thesis
    unfolding peel_layer_def
    by (simp add: Let_def k decrypt_encrypt_layer [OF aes] j item)
qed

lemma make_layers_peel_along:
  assumes aes: "\<forall>k v p. length p mod 16 = 0 \<longrightarrow>
             aes_cbc_decrypt lib k v (aes_cbc_encrypt lib k v p) = Some p"
    and json: "\<forall>h n. json_decode lib (json_encode lib (routing_info h n)) = Some (routing_info h n)"
    and keys: "\<forall>r \<in> set relays. \<exists>pk. route_keys r = Some pk \<and>
             x25519_exchange lib (ephemeral_private_key km) pk
               = x25519_exchange lib (identity_private_key (kms r)) spk"
  shows "drop i relays = rest \<Longrightarrow>
         \<exists>ls. make_layers lib km urandom route route_keys relays i rest = Inr ls \<and>
              length ls = length rest \<and>
              peel_along lib kms spk rest \<lparr>layers = ls, final_payload = fp\<rparr>
                = Inr (if rest = [] then [] else map Some (tl rest @ [last route]),
                       \<lparr>layers = [], final_payload = fp\<rparr>)"
proof (induction rest arbitrary: i)
  case Nil
  show ?case by simp
next
  case (Cons r rest)
  from Cons.prems have i: "i < length relays"
    by (metis drop_eq_Nil not_le list.distinct(1))
  from Cons.prems have d: "drop (Suc i) relays = rest"
    by (metis drop_Suc list.sel(3) tl_drop)
  from Cons.prems have "r \<in> set relays"
    by (metis in_set_dropD list.set_intros(1))
  with keys obtain pk where pk: "route_keys r = Some pk"
    and dh: "x25519_exchange lib (ephemeral_private_key km) pk
               = x25519_exchange lib (identity_private_key (kms r)) spk"
    by blast
  from Cons.IH [OF d] obtain ls where
    ls: "make_layers lib km urandom route route_keys relays (Suc i) rest = Inr ls"
    and len: "length ls = length rest"
    and peel: "peel_along lib kms spk rest \<lparr>layers = ls, final_payload = fp\<rparr>
                = Inr (if rest = [] then [] else map Some (tl rest @ [last route]),
                       \<lparr>layers = [], final_payload = fp\<rparr>)"
    by blast
  define hop where "hop = (if i < length relays - 1 then relays ! (i + 1) else last route)"
  have hop: "hop = hd (rest @ [last route])"
  proof (cases rest)
    case Nil
    with d i have "length relays = Suc i" by simp
    then show ?thesis by (simp add: hop_def Nil)
  next
    case (Cons x xs)
    with d have "Suc i < length relays"
      by (metis drop_eq_Nil not_le list.distinct(1))
    moreover from this d Cons have "relays ! Suc i = x"
      by (metis Cons_nth_drop_Suc list.inject)
    moreover from \<open>Suc i < length relays\<close> have "i < length relays - 1"
      by simp
    ultimately show ?thesis by (simp add: hop_def Cons)
  qed
  let ?layer = "encrypt_layer lib (urandom i) (json_encode lib (routing_info hop (i + 1)))
                  (fst (derive_layer_keys lib (perform_dh lib (ephemeral_private_key km) pk) r))
                  (snd (derive_layer_keys lib (perform_dh lib (ephemeral_private_key km) pk) r))"
  have m: "make_layers lib km urandom route route_keys relays i (r # rest) = Inr (?layer # ls)"
    using pk ls by (simp add: Let_def hop_def)
  have p: "peel_layer lib (kms r) \<lparr>layers = ?layer # ls, final_payload = fp\<rparr> r spk
         = Inr (Some hop, \<lparr>layers = ls, final_payload = fp\<rparr>)"
    by (rule peel_layer_own [OF aes json dh])
  have "peel_along lib kms spk (r # rest) \<lparr>layers = ?layer # ls, final_payload = fp\<rparr>
      = Inr (map Some (rest @ [last route]), \<lparr>layers = [], final_payload = fp\<rparr>)"
    using p peel hop by (cases rest) simp_all
  with m len show ?case by simp
qed

lemma peel_layer_final_payload:
  "peel_layer lib km' packet r spk = Inr (hop, packet') \<Longrightarrow>
   final_payload packet' = final_payload packet"
proof (cases "layers packet")
  case Nil
  then show "peel_layer lib km' packet r spk = Inr (hop, packet') \<Longrightarrow>
    final_payload packet' = final_payload packet"
    by (auto simp: peel_layer_def)
next
  case (Cons our_layer remaining_layers)
  assume a: "peel_layer lib km' packet r spk = Inr (hop, packet')"
  have "packet' = \<lparr>layers = remaining_layers, final_payload = final_payload packet\<rparr>"
  proof (cases "Option.bind (decrypt_layer lib our_layer
                  (fst (derive_layer_keys lib (perform_dh lib (identity_private_key km') spk) r))
                  (snd (derive_layer_keys lib (perform_dh lib (identity_private_key km') spk) r)))
                (json_decode lib)")
    case None
    with a Cons show ?thesis by (simp add: peel_layer_def Let_def)
  next
    case (Some info)
    show ?thesis
    proof (cases "json_item info ''next_hop''")
      case None
      with a Cons Some show ?thesis
        by (cases info) (simp_all add: peel_layer_def Let_def)
    next
      case (Some v)
      with a Cons \<open>Option.bind _ _ = Some info\<close> show ?thesis
        by (cases v) (simp_all add: peel_layer_def Let_def)
    qed
  qed
  then show "final_payload packet' = final_payload packet"
    by simp
qed

text \<open>
  Claim C6. Let the route be the sender, the relays and the recipient, and let the
  library work as it should: decrypting inverts encrypting on whole blocks, reading a
  routing record inverts writing it, and for every relay the exchange of the sender's
  ephemeral private key with the public key that \<^verbatim>\<open>route_keys\<close> gives the relay is the
  exchange of the relay's private identity key with the sender's public key handed to
  \<^verbatim>\<open>peel_layer\<close>. Then \<^verbatim>\<open>create_onion\<close> returns a packet with one layer for each relay; the
  relays, peeling in route order, learn the next hops relay 2, ..., relay k, recipient in
  turn and leave a packet with no layer whose final payload is the sealed payload, which
  \<^verbatim>\<open>extract_payload\<close> returns; and no call of \<^verbatim>\<open>peel_layer\<close> that returns changes the final
  payload of its packet.
\<close>

theorem onion_wrap_peel:
  assumes route: "route = sender # relays @ [recipient]"
    and keys: "\<forall>r \<in> set relays. \<exists>pk. route_keys r = Some pk \<and>
             x25519_exchange lib (ephemeral_private_key km) pk
               = x25519_exchange lib (identity_private_key (kms r)) sender_public_key"
    and aes: "\<forall>k v p. length p mod 16 = 0 \<longrightarrow>
             aes_cbc_decrypt lib k v (aes_cbc_encrypt lib k v p) = Some p"
    and json: "\<forall>h n. json_decode lib (json_encode lib (routing_info h n)) = Some (routing_info h n)"
  shows "\<exists>packet.
           create_onion lib km urandom route route_keys sealed = Inr packet \<and>
           length (layers packet) = length relays \<and>
           final_payload packet = sealed \<and>
           peel_along lib kms sender_public_key relays packet
             = Inr (map Some (tl (relays @ [recipient])),
                    \<lparr>layers = [], final_payload = sealed\<rparr>) \<and>
           extract_payload \<lparr>layers = [], final_payload = sealed\<rparr> = Inr sealed \<and>
           (\<forall>km' p r hop p'. peel_layer lib km' p r sender_public_key = Inr (hop, p') \<longrightarrow>
                final_payload p' = final_payload p)"
proof -
  have b: "butlast (tl route) = relays" and l: "last route = recipient"
    by (simp_all add: route butlast_append)
  have "drop 0 relays = relays"
    by simp
  from make_layers_peel_along [OF aes json keys this, where urandom = urandom
      and route = route and fp = sealed]
  obtain ls where
    ls: "make_layers lib km urandom route route_keys relays 0 relays = Inr ls"
    and len: "length ls = length relays"
    and peel: "peel_along lib kms sender_public_key relays \<lparr>layers = ls, final_payload = sealed\<rparr>
                = Inr (if relays = [] then [] else map Some (tl relays @ [last route]),
                       \<lparr>layers = [], final_payload = sealed\<rparr>)"
    by blast
  have c: "create_onion lib km urandom route route_keys sealed
             = Inr \<lparr>layers = ls, final_payload = sealed\<rparr>"
    by (simp add: create_onion_def b ls)
  have "(if relays = [] then [] else map Some (tl relays @ [last route]))
          = map Some (tl (relays @ [recipient]))"
    by (cases relays) (simp_all add: l)
  with peel have "peel_along lib kms sender_public_key relays \<lparr>layers = ls, final_payload = sealed\<rparr>
                = Inr (map Some (tl (relays @ [recipient])),
                       \<lparr>layers = [], final_payload = sealed\<rparr>)"
    by simp
  with c len show ?thesis
    by (auto simp: extract_payload_def dest: peel_layer_final_payload)
qed

text \<open>
  A library that satisfies the hypotheses, for the witness: the exchange depends on the
  lengths of its two arguments only (a key is its own public key), the cipher is the
  identity, and a routing record is written as its hop number in strokes, a colon and the
  next hop.
\<close>

definition toy_encode :: "json \<Rightarrow> string" where
  "toy_encode j =
     (case j of
        JObj [(k1, JStr hop), (k2, JInt n)] \<Rightarrow> replicate (nat n) CHR ''#'' @ '':'' @ hop
      | _ \<Rightarrow> [])"

definition toy_decode :: "string \<Rightarrow> json option" where
  "toy_decode s =
     Some (routing_info (tl (dropWhile (\<lambda>c. c = CHR ''#'') s))
             (length (takeWhile (\<lambda>c. c = CHR ''#'') s)))"

definition toy_library :: crypto_library where
  "toy_library =
     \<lparr>x25519_exchange = (\<lambda>a b. replicate (length a + length b) CHR ''s''),
      hkdf_sha256 = (\<lambda>salt info secret. salt @ info @ secret),
      aes_cbc_encrypt = (\<lambda>k v p. p),
      aes_cbc_decrypt = (\<lambda>k v c. Some c),
      hmac_sha256 = (\<lambda>k d. k @ d),
      json_encode = toy_encode,
      json_decode = toy_decode\<rparr>"

definition toy_keys :: "identity \<Rightarrow> KeyManager" where
  "toy_keys name = \<lparr>identity_private_key = name, ephemeral_private_key = name @ ''!''\<rparr>"

lemma toy_roundtrip: "toy_decode (toy_encode (routing_info h n)) = Some (routing_info h n)"
proof -
  have t: "takeWhile (\<lambda>c. c = CHR ''#'') (replicate n CHR ''#'' @ CHR '':'' # h)
             = replicate n CHR ''#''"
    by (induction n) simp_all
  have d: "dropWhile (\<lambda>c. c = CHR ''#'') (replicate n CHR ''#'' @ CHR '':'' # h) = CHR '':'' # h"
    by (induction n) simp_all
  show ?thesis
    by (simp add: toy_decode_def toy_encode_def routing_info_def t d)
qed

text \<open>
  The theorem at the route A, B, C, D with the library above: B learns C, C learns D, and
  the sealed payload is left.
\<close>

theorem onion_wrap_peel_witness:
  "x25519_exchange toy_library (ephemeral_private_key (toy_keys ''A'')) ''B''
     = x25519_exchange toy_library (identity_private_key (toy_keys ''B'')) ''A!'' \<and>
   x25519_exchange toy_library (ephemeral_private_key (toy_keys ''A'')) ''C''
     = x25519_exchange toy_library (identity_private_key (toy_keys ''C'')) ''A!'' \<and>
   (\<exists>packet.
      create_onion toy_library (toy_keys ''A'') (\<lambda>i. ''0123456789abcdef'')
        [''A'', ''B'', ''C'', ''D''] (Some \<circ> identity_private_key \<circ> toy_keys) ''sealed''
        = Inr packet \<and>
      length (layers packet) = 2 \<and>
      peel_along toy_library toy_keys ''A!'' [''B'', ''C''] packet
        = Inr ([Some ''C'', Some ''D''], \<lparr>layers = [], final_payload = ''sealed''\<rparr>)) \<and>
   extract_payload \<lparr>layers = [], final_payload = ''sealed''\<rparr> = Inr ''sealed''"
proof -
  have keys: "\<forall>r \<in> set [''B'', ''C'']. \<exists>pk. (Some \<circ> identity_private_key \<circ> toy_keys) r = Some pk \<and>
       x25519_exchange toy_library (ephemeral_private_key (toy_keys ''A'')) pk
         = x25519_exchange toy_library (identity_private_key (toy_keys r)) ''A!''"
    by (simp add: toy_library_def toy_keys_def)
  have aes: "\<forall>k v p. length p mod 16 = 0 \<longrightarrow>
      aes_cbc_decrypt toy_library k v (aes_cbc_encrypt toy_library k v p) = Some p"
    by (simp add: toy_library_def)
  have json: "\<forall>h n. json_decode toy_library (json_encode toy_library (routing_info h n))
      = Some (routing_info h n)"
    by (simp add: toy_library_def toy_roundtrip)
  have route: "[''A'', ''B'', ''C'', ''D''] = ''A'' # [''B'', ''C''] @ [''D'']"
    by simp
  from onion_wrap_peel [OF route keys aes json, of "\<lambda>i. ''0123456789abcdef''" "''sealed''"]
  obtain packet where
    "create_onion toy_library (toy_keys ''A'') (\<lambda>i. ''0123456789abcdef'')
        [''A'', ''B'', ''C'', ''D''] (Some \<circ> identity_private_key \<circ> toy_keys) ''sealed''
        = Inr packet"
    and "length (layers packet) = length [''B'', ''C'']"
    and "peel_along toy_library toy_keys ''A!'' [''B'', ''C''] packet
        = Inr (map Some (tl ([''B'', ''C''] @ [''D''])),
               \<lparr>layers = [], final_payload = ''sealed''\<rparr>)"
    by blast
  moreover have "map Some (tl ([''B'', ''C''] @ [''D''])) = [Some ''C'', Some ''D'']"
    and "length [''B'', ''C''] = 2"
    by simp_all
  ultimately have "\<exists>packet.
      create_onion toy_library (toy_keys ''A'') (\<lambda>i. ''0123456789abcdef'')
        [''A'', ''B'', ''C'', ''D''] (Some \<circ> identity_private_key \<circ> toy_keys) ''sealed''
        = Inr packet \<and>
      length (layers packet) = 2 \<and>
      peel_along toy_library toy_keys ''A!'' [''B'', ''C''] packet
        = Inr ([Some ''C'', Some ''D''], \<lparr>layers = [], final_payload = ''sealed''\<rparr>)"
    by metis
  moreover have "extract_payload \<lparr>layers = [], final_payload = ''sealed''\<rparr> = Inr ''sealed''"
    by (simp add: extract_payload_def)
  moreover have "x25519_exchange toy_library (ephemeral_private_key (toy_keys ''A'')) ''B''
     = x25519_exchange toy_library (identity_private_key (toy_keys ''B'')) ''A!''"
    and "x25519_exchange toy_library (ephemeral_private_key (toy_keys ''A'')) ''C''
     = x25519_exchange toy_library (identity_private_key (toy_keys ''C'')) ''A!''"
    by (simp_all add: toy_library_def toy_keys_def)
  ultimately show ?thesis by blast
qed

end
